theory Spec2Isabelle
  imports Complex_Main "HOL-Library.Sublist" "HOL-Library.Log_Nat"
begin

section \<open>Text\<close>

text \<open>
  A Python \<open>str\<close> is a sequence of Unicode code points: \<open>ustr\<close> is a list of code
  points. A \<open>string\<close> (a list of 8-bit characters) is used where the source's value is
  known to stay inside Latin-1: an HTTP header value (WSGI hands header values over decoded
  as Latin-1), a file name that went through \<open>secure_filename\<close> (ASCII only), and the
  literals of the source. \<open>T\<close> reads such a string as a \<open>ustr\<close>.
\<close>

type_synonym ustr = "nat list"

definition T :: "string \<Rightarrow> ustr" where
  "T s = map of_char s"

text \<open>
  \<open>str.lower()\<close> on the Latin-1 range: \<open>A..Z\<close> and \<open>U+00C0..U+00DE\<close> except the
  multiplication sign \<open>U+00D7\<close> move up by 32, every other character of the range is
  unchanged, and every character maps to exactly one character.
\<close>

definition lower_char :: "char \<Rightarrow> char" where
  "lower_char c =
     (let n = (of_char c :: nat) in
      if (65 \<le> n \<and> n \<le> 90) \<or> (192 \<le> n \<and> n \<le> 222 \<and> n \<noteq> 215)
      then char_of (n + 32) else c)"

definition lower :: "string \<Rightarrow> string" where
  "lower s = map lower_char s"

text \<open>Python's \<open>needle in haystack\<close> on strings: a contiguous occurrence.\<close>

fun str_in :: "'a list \<Rightarrow> 'a list \<Rightarrow> bool" where
  "str_in needle [] = (needle = [])"
| "str_in needle (c # cs) = (prefix needle (c # cs) \<or> str_in needle cs)"

definition startswith :: "'a list \<Rightarrow> 'a list \<Rightarrow> bool" where
  "startswith s p = prefix p s"

text \<open>\<open>s.lstrip('/')\<close> and \<open>s.rstrip('/')\<close>: every leading (trailing) occurrence goes.\<close>

definition lstrip :: "'a \<Rightarrow> 'a list \<Rightarrow> 'a list" where
  "lstrip c s = dropWhile (\<lambda>x. x = c) s"

definition rstrip :: "'a \<Rightarrow> 'a list \<Rightarrow> 'a list" where
  "rstrip c s = rev (dropWhile (\<lambda>x. x = c) (rev s))"

text \<open>Python truthiness of an optional string: \<open>None\<close> and \<open>''\<close> are false.\<close>

fun truthy :: "'a list option \<Rightarrow> bool" where
  "truthy None = False"
| "truthy (Some s) = (s \<noteq> [])"

text \<open>\<open>x or d\<close> for an optional string \<open>x\<close> and a string \<open>d\<close>.\<close>

definition or_else :: "'a list option \<Rightarrow> 'a list \<Rightarrow> 'a list" where
  "or_else x d = (case x of None \<Rightarrow> d | Some s \<Rightarrow> if s = [] then d else s)"

text \<open>\<open>x if x else None\<close>.\<close>

definition or_none :: "'a list option \<Rightarrow> 'a list option" where
  "or_none x = (if truthy x then x else None)"

section \<open>Link records and the visit handler\<close>

text \<open>
  A row of the table \<open>links\<close>, columns in the order \<open>SELECT *\<close> returns them:
  slug, dest_url, img_url, title, description, card_size, site_name, button_text, og_url.
  \<open>create\<close> stores a non-empty \<open>dest_url\<close> and \<open>title\<close>; the other columns may hold NULL.
\<close>

record link =
  slug :: ustr
  dest_url :: ustr
  img_url :: "ustr option"
  title :: ustr
  description :: "ustr option"
  card_size :: "ustr option"
  site_name :: "ustr option"
  button_text :: "ustr option"
  og_url :: "ustr option"

text \<open>\<open>SELECT * FROM links WHERE slug=?\<close> followed by \<open>fetchone()\<close>.\<close>

definition lookup_link :: "link list \<Rightarrow> ustr \<Rightarrow> link option" where
  "lookup_link links s = find (\<lambda>l. slug l = s) links"

text \<open>
  What the handler reads of the request: the scheme and the host, the URL of the request
  without its query string (\<open>request.base_url\<close>), and the \<open>User-Agent\<close> header when
  there is one. \<open>request.host_url\<close> is the framework's property: the scheme,
  \<open>://\<close>, the host and a slash.
\<close>

record request =
  scheme :: ustr
  host :: ustr
  base_url :: ustr
  user_agent :: "string option"

definition host_url :: "request \<Rightarrow> ustr" where
  "host_url r = scheme r @ T ''://'' @ host r @ T ''/''"

text \<open>The context handed to the template \<open>meta.html\<close>.\<close>

record meta_doc =
  m_title :: ustr
  m_description :: ustr
  m_img :: ustr
  m_url :: ustr
  m_dest_url :: ustr
  m_site_name :: "ustr option"
  m_card_size :: ustr
  m_button_text :: "ustr option"

text \<open>
  The body returned on success by the upload and by the grid handler; only the upload's
  has the key \<open>expires_at\<close> (\<open>r_expires_at = None\<close> when the key is absent).
\<close>

record created =
  r_id :: ustr
  r_direct_url :: ustr
  r_view_url :: ustr
  r_delete_url :: ustr
  r_delete_token :: ustr
  r_expires_at :: "int option option"

text \<open>
  The responses of the handlers: a rendered metadata document, a redirect, a text with a
  status, the JSON bodies \<open>{'error': msg}\<close> with a status, \<open>{'ok': True}\<close> and the
  body of a creation, and the 500 of an exception no handler catches.
\<close>

datatype response =
    Rendered_meta meta_doc
  | Redirect nat ustr
  | Plain nat string
  | Json_error nat string
  | Json_ok
  | Json_created created
  | Server_error

fun status_of :: "response \<Rightarrow> nat" where
  "status_of (Rendered_meta _) = 200"
| "status_of (Redirect code _) = code"
| "status_of (Plain code _) = code"
| "status_of (Json_error code _) = code"
| "status_of Json_ok = 200"
| "status_of (Json_created _) = 200"
| "status_of Server_error = 500"

definition is_3xx :: "nat \<Rightarrow> bool" where
  "is_3xx code = (300 \<le> code \<and> code < 400)"

definition BOT_SIGNATURES :: "string list" where
  "BOT_SIGNATURES =
     [''facebookexternalhit'', ''facebot'', ''meta-externalagent'', ''meta-externalfetcher'',
      ''twitterbot'', ''linkedinbot'', ''slackbot'', ''whatsapp'', ''telegrambot'']"

text \<open>\<open>request.headers.get('User-Agent', '').lower()\<close> and the \<open>any(...)\<close> over the list.\<close>

definition is_bot :: "request \<Rightarrow> bool" where
  "is_bot r =
     (let ua = lower (case user_agent r of None \<Rightarrow> [] | Some s \<Rightarrow> s)
      in list_ex (\<lambda>bot. str_in bot ua) BOT_SIGNATURES)"

text \<open>The image URL made absolute (the first lines of the bot branch).\<close>

definition absolute_img_url :: "request \<Rightarrow> ustr option \<Rightarrow> ustr" where
  "absolute_img_url r stored =
     (let img = or_else stored [] in
      if img \<noteq> [] \<and> \<not> (startswith img (T ''http://'') \<or> startswith img (T ''https://''))
      then (if startswith img (T ''/'')
            then scheme r @ T ''://'' @ host r @ img
            else rstrip (of_char CHR ''/'') (host_url r) @ T ''/'' @ lstrip (of_char CHR ''/'') img)
      else img)"

definition redirect_handler :: "link list \<Rightarrow> request \<Rightarrow> ustr \<Rightarrow> response" where
  "redirect_handler links r s =
     (case lookup_link links s of
        Some l \<Rightarrow>
          if is_bot r then
            Rendered_meta \<lparr>
              m_title = title l,
              m_description = or_else (description l) [],
              m_img = absolute_img_url r (img_url l),
              m_url = (case or_none (og_url l) of Some u \<Rightarrow> u | None \<Rightarrow> base_url r),
              m_dest_url = dest_url l,
              m_site_name = or_none (site_name l),
              m_card_size = or_else (card_size l) (T ''large''),
              m_button_text = or_none (button_text l) \<rparr>
          else Redirect 302 (dest_url l)
      | None \<Rightarrow> Plain 404 ''Link not found'')"

text \<open>
  The claim's wording of the classification: some signature of the list occurs in the
  user-agent up to case, that is, a contiguous part of the user-agent lowercases to it.
\<close>

definition contains_ci :: "string \<Rightarrow> string \<Rightarrow> bool" where
  "contains_ci ua sig = (\<exists>u. sublist u ua \<and> lower u = lower sig)"

definition has_crawler_signature :: "string option \<Rightarrow> bool" where
  "has_crawler_signature ua =
     (\<exists>sig \<in> set BOT_SIGNATURES. contains_ci (case ua of None \<Rightarrow> [] | Some s \<Rightarrow> s) sig)"


text \<open>A stored link and a request, for the concrete evaluations below.\<close>

definition example_link :: link where
  "example_link = \<lparr> slug = T ''aB3dE9'', dest_url = T ''https://shop.example/item'',
     img_url = Some (T ''/static/uploads/aB3dE9.png''), title = T ''Item'',
     description = None, card_size = None, site_name = None, button_text = None,
     og_url = None \<rparr>"

definition example_request :: "string \<Rightarrow> request" where
  "example_request ua = \<lparr> scheme = T ''https'', host = T ''cards.example'',
     base_url = T ''https://cards.example/aB3dE9'', user_agent = Some ua \<rparr>"


text \<open>
  The claim's wording of the emitted image URL: three cases, on the stored reference
  alone. The site root is \<open>request.host_url\<close> without its trailing slash.
\<close>

definition site_root :: "request \<Rightarrow> ustr" where
  "site_root r = rstrip (of_char CHR ''/'') (host_url r)"

definition claimed_img_url :: "request \<Rightarrow> ustr \<Rightarrow> ustr" where
  "claimed_img_url r ref =
     (if startswith ref (T ''http://'') \<or> startswith ref (T ''https://'') then ref
      else if startswith ref (T ''/'') then scheme r @ T ''://'' @ host r @ ref
      else site_root r @ T ''/'' @ ref)"

subsection \<open>The handler of the 404 error\<close>

text \<open>
  \<open>handle_not_found\<close> is registered for the error 404: the framework calls it when a
  request matches no route or a view raises the error, not when a view returns a response
  whose status is 404. \<open>urllib.parse.unquote\<close> and \<open>str.lower\<close> on arbitrary text
  are the standard library's: they are parameters, \<open>unquote\<close> answering \<open>None\<close>
  when it raises. \<open>url_for('upload_page')\<close> is the path of that route.
\<close>

definition has_thai :: "ustr \<Rightarrow> bool" where
  "has_thai decoded = list_ex (\<lambda>ch. 0x0E00 \<le> ch \<and> ch \<le> 0x0E7F) decoded"

definition handle_not_found ::
  "(ustr \<Rightarrow> ustr option) \<Rightarrow> (ustr \<Rightarrow> ustr) \<Rightarrow> ustr \<Rightarrow> response" where
  "handle_not_found unquote str_lower path =
     (let decoded = (case unquote path of Some d \<Rightarrow> d | None \<Rightarrow> path) in
      if has_thai decoded \<or> str_in (T ''%e0%b8'') (str_lower path)
      then Redirect 302 (T ''/upload'')
      else Plain 404 ''Not found'')"

text \<open>The image URL a response carries: that of the metadata document, when it is one.\<close>

fun emitted_img :: "response \<Rightarrow> ustr option" where
  "emitted_img (Rendered_meta doc) = Some (m_img doc)"
| "emitted_img _ = None"

section \<open>Values, errors and responses of the image API\<close>

text \<open>
  A raised exception is a value: \<open>ValueError\<close> with its message, which the handlers
  catch on its own, and every other exception with its text.
\<close>

datatype error = ValueError string | OtherError string

fun and_then :: "error + 'a \<Rightarrow> ('a \<Rightarrow> error + 'b) \<Rightarrow> error + 'b" where
  "and_then (Inl e) f = Inl e"
| "and_then (Inr v) f = f v"

text \<open>
  A parsed JSON value (numbers with a fraction left out), and Python's truth value of it.
  An object is the list of its items, looked up by key.
\<close>

datatype json =
    JNull
  | JBool bool
  | JInt int
  | JStr ustr
  | JArr "json list"
  | JObj "(ustr \<times> json) list"

fun json_truthy :: "json \<Rightarrow> bool" where
  "json_truthy JNull = False"
| "json_truthy (JBool b) = b"
| "json_truthy (JInt n) = (n \<noteq> 0)"
| "json_truthy (JStr s) = (s \<noteq> [])"
| "json_truthy (JArr xs) = (xs \<noteq> [])"
| "json_truthy (JObj kvs) = (kvs \<noteq> [])"

section \<open>The image registry\<close>

type_synonym bytes = "nat list"

text \<open>A row of the table \<open>images\<close>; \<open>expires_at\<close> is the one column that is read as NULL.\<close>

record image_row =
  img_id :: ustr
  filename :: ustr
  content_type :: ustr
  img_title :: ustr
  img_description :: ustr
  created_at :: int
  expires_at :: "int option"
  delete_token :: ustr

text \<open>The persistent state: the table, and the upload directory as a map from names to contents.\<close>

record store =
  images :: "image_row list"
  files :: "ustr \<rightharpoonup> bytes"

text \<open>\<open>SELECT ... FROM images WHERE id=?\<close> with \<open>fetchone()\<close>, and \<open>DELETE FROM images WHERE id=?\<close>.\<close>

definition select_image :: "image_row list \<Rightarrow> ustr \<Rightarrow> image_row option" where
  "select_image rows i = find (\<lambda>r. img_id r = i) rows"

definition delete_image :: "ustr \<Rightarrow> image_row list \<Rightarrow> image_row list" where
  "delete_image i rows = filter (\<lambda>r. img_id r \<noteq> i) rows"

text \<open>\<open>os.remove\<close> inside \<open>try ... except FileNotFoundError: pass\<close>.\<close>

definition remove_file :: "ustr \<Rightarrow> (ustr \<rightharpoonup> bytes) \<Rightarrow> (ustr \<rightharpoonup> bytes)" where
  "remove_file name fs = fs(name := None)"

text \<open>\<open>expires_at IS NOT NULL AND expires_at <= now\<close>.\<close>

definition is_expired :: "int \<Rightarrow> image_row \<Rightarrow> bool" where
  "is_expired now r = (case expires_at r of None \<Rightarrow> False | Some e \<Rightarrow> e \<le> now)"

definition sweep_row :: "image_row \<Rightarrow> store \<Rightarrow> store" where
  "sweep_row r st =
     \<lparr> images = delete_image (img_id r) (images st),
       files = remove_file (filename r) (files st) \<rparr>"

definition cleanup_expired_images :: "int \<Rightarrow> store \<Rightarrow> store" where
  "cleanup_expired_images now st = fold sweep_row (filter (is_expired now) (images st)) st"

text \<open>\<open>_is_image_not_expired\<close>.\<close>

definition is_image_not_expired :: "int \<Rightarrow> int option \<Rightarrow> bool" where
  "is_image_not_expired now e = (case e of None \<Rightarrow> True | Some t \<Rightarrow> t > now)"

subsection \<open>Deleting an image\<close>

text \<open>
  What the delete handler reads of the request: the form field \<open>delete_token\<close>, whether
  the request is JSON, and the parsed JSON body (\<open>None\<close> when it does not parse).
\<close>

record delete_request =
  form_token :: "ustr option"
  is_json :: bool
  json_body :: "json option"

text \<open>
  \<open>(request.get_json(silent=True) or {}).get('delete_token')\<close>: a body that is not true
  counts as the empty object, and \<open>.get\<close> on a true body that is not an object raises.
\<close>

definition json_delete_token :: "json option \<Rightarrow> error + json" where
  "json_delete_token body =
     (case body of
        None \<Rightarrow> Inr JNull
      | Some (JObj kvs) \<Rightarrow> Inr (case map_of kvs (T ''delete_token'') of None \<Rightarrow> JNull | Some v \<Rightarrow> v)
      | Some b \<Rightarrow> if json_truthy b then Inl (OtherError ''AttributeError'') else Inr JNull)"

definition request_delete_token :: "delete_request \<Rightarrow> error + json" where
  "request_delete_token req =
     (if \<not> truthy (form_token req) \<and> is_json req then json_delete_token (json_body req)
      else Inr (case form_token req of None \<Rightarrow> JNull | Some s \<Rightarrow> JStr s))"

text \<open>
  \<open>api_delete_image\<close>. The clock is read twice, by the sweep and by the expiry test of
  the row: \<open>now_sweep\<close> and \<open>now_check\<close>. The row goes before the file.
\<close>

definition delete_row_and_file :: "ustr \<Rightarrow> image_row \<Rightarrow> store \<Rightarrow> store" where
  "delete_row_and_file i row st =
     \<lparr> images = delete_image i (images st),
       files = remove_file (filename row) (files st) \<rparr>"

definition api_delete_image ::
  "int \<Rightarrow> int \<Rightarrow> delete_request \<Rightarrow> ustr \<Rightarrow> store \<Rightarrow> response \<times> store" where
  "api_delete_image now_sweep now_check req image_id st0 =
     (let st = cleanup_expired_images now_sweep st0 in
      case request_delete_token req of
        Inl _ \<Rightarrow> (Server_error, st)
      | Inr token \<Rightarrow>
          if \<not> json_truthy token then (Json_error 400 ''Missing delete_token'', st)
          else
            (case select_image (images st) image_id of
               None \<Rightarrow> (Json_error 404 ''Not found'', st)
             | Some row \<Rightarrow>
                 if is_expired now_check row
                 then (Json_ok, delete_row_and_file image_id row st)
                 else if token \<noteq> JStr (delete_token row)
                 then (Json_error 403 ''Invalid delete_token'', st)
                 else (Json_ok, delete_row_and_file image_id row st)))"

text \<open>
  The claims' wording. A request supplies a token value when the value the handler reads
  is true. A request supplies no token when the form field is absent or empty and, for a
  JSON request, the body is absent or does not parse, or is one of the values that
  \<open>or {}\<close> replaces by the empty object (\<open>null\<close>, \<open>false\<close>, \<open>0\<close>, the empty string, the
  empty array, the empty object), or is an object that has no key \<open>delete_token\<close> or an
  empty value under it. A JSON body that is a non-empty array or string, a non-zero number
  or \<open>true\<close> is left out: \<open>.get\<close> is not defined on it and the handler raises (see
  \<open>json_delete_token\<close>).
\<close>

definition supplies_token :: "delete_request \<Rightarrow> json \<Rightarrow> bool" where
  "supplies_token req tok = (request_delete_token req = Inr tok \<and> json_truthy tok)"

definition supplies_no_token :: "delete_request \<Rightarrow> bool" where
  "supplies_no_token req =
     (\<not> truthy (form_token req) \<and>
      (if is_json req
       then (case json_body req of
               None \<Rightarrow> True
             | Some (JObj kvs) \<Rightarrow>
                 (case map_of kvs (T ''delete_token'') of None \<Rightarrow> True
                  | Some v \<Rightarrow> \<not> json_truthy v)
             | Some b \<Rightarrow> \<not> json_truthy b)
       else True))"

text \<open>The row and its file are gone from a state.\<close>

definition removed :: "image_row \<Rightarrow> store \<Rightarrow> bool" where
  "removed row st = (select_image (images st) (img_id row) = None \<and> files st (filename row) = None)"

text \<open>The row and its file are in \<open>st'\<close> as they were in \<open>st\<close>.\<close>

definition untouched :: "image_row \<Rightarrow> store \<Rightarrow> store \<Rightarrow> bool" where
  "untouched row st st' =
     (select_image (images st') (img_id row) = Some row \<and>
      files st' (filename row) = files st (filename row))"

text \<open>The table's invariant: \<open>id\<close> is the primary key, and no two rows name the same file.\<close>

definition store_ok :: "store \<Rightarrow> bool" where
  "store_ok st = (distinct (map img_id (images st)) \<and> distinct (map filename (images st)))"

text \<open>A store with one image that expires at 100 and one that never expires.\<close>

definition example_row :: "int option \<Rightarrow> image_row" where
  "example_row e = \<lparr> img_id = T ''ab12'', filename = T ''ab12.png'', content_type = T ''image/png'',
     img_title = [], img_description = [], created_at = 40, expires_at = e,
     delete_token = T ''s3cret'' \<rparr>"

definition example_grid_row :: image_row where
  "example_grid_row = \<lparr> img_id = T ''cd34'', filename = T ''cd34.jpg'', content_type = T ''image/jpeg'',
     img_title = [], img_description = [], created_at = 50, expires_at = None,
     delete_token = T ''t0ken'' \<rparr>"

definition example_store :: "int option \<Rightarrow> store" where
  "example_store e = \<lparr> images = [example_row e, example_grid_row],
     files = [T ''ab12.png'' \<mapsto> [1, 2, 3], T ''cd34.jpg'' \<mapsto> [4, 5]] \<rparr>"

definition form_request :: "ustr option \<Rightarrow> delete_request" where
  "form_request tok = \<lparr> form_token = tok, is_json = False, json_body = None \<rparr>"

section \<open>Floating point\<close>

text \<open>
  A Python \<open>float\<close> is an IEEE 754 binary64 number; a finite one is the rational it
  denotes. \<open>rnd\<close> rounds a rational to the nearest binary64 number, ties to the even
  significand: 53 bits of significand, a least exponent of \<open>-1074\<close>, no upper bound on
  the exponent. \<open>binade x\<close> is the exponent \<open>e\<close> with \<open>2^e \<le> x < 2^(e+1)\<close>, for
  a positive \<open>x\<close>.
\<close>

definition pow2 :: "int \<Rightarrow> rat" where
  "pow2 k = (if 0 \<le> k then 2 ^ nat k else 1 / 2 ^ nat (- k))"

definition round_half_even :: "rat \<Rightarrow> int" where
  "round_half_even y =
     (let f = \<lfloor>y\<rfloor>; d = y - of_int f in
      if d < 1 / 2 then f else if 1 / 2 < d then f + 1 else if even f then f else f + 1)"

definition binade :: "rat \<Rightarrow> int" where
  "binade x =
     (let e = bitlen (fst (quotient_of x)) - bitlen (snd (quotient_of x)) in
      if pow2 e \<le> x then e else e - 1)"

definition rnd :: "rat \<Rightarrow> rat" where
  "rnd x =
     (if x = 0 then 0
      else let q = max (binade \<bar>x\<bar> - 52) (- 1074) in
           sgn x * of_int (round_half_even (\<bar>x\<bar> / pow2 q)) * pow2 q)"

text \<open>
  A result too large for a binary64 number. Where Python raises \<open>OverflowError\<close> (the
  conversion of an \<open>int\<close>, the true division of two \<open>int\<close>s) the model raises it;
  where Python answers an infinity (the product, the quotient and the difference of two
  floats) the model raises it as well: in this program each such result goes, inside the
  same \<open>try\<close>, to \<open>int()\<close>, which raises \<open>OverflowError\<close> on an infinity.
\<close>

definition to_float :: "rat \<Rightarrow> error + rat" where
  "to_float x = (let r = rnd x in
     if \<bar>r\<bar> < 2 ^ 1024 then Inr r else Inl (OtherError ''OverflowError''))"

definition float_of_int :: "int \<Rightarrow> error + rat" where
  "float_of_int n = to_float (of_int n)"

definition int_truediv :: "int \<Rightarrow> int \<Rightarrow> error + rat" where
  "int_truediv a b =
     (if b = 0 then Inl (OtherError ''ZeroDivisionError'') else to_float (of_int a / of_int b))"

definition float_mul :: "rat \<Rightarrow> rat \<Rightarrow> error + rat" where
  "float_mul x y = to_float (x * y)"

definition float_div :: "rat \<Rightarrow> rat \<Rightarrow> error + rat" where
  "float_div x y = (if y = 0 then Inl (OtherError ''ZeroDivisionError'') else to_float (x / y))"

definition float_sub :: "rat \<Rightarrow> rat \<Rightarrow> error + rat" where
  "float_sub x y = to_float (x - y)"

text \<open>\<open>int(x)\<close> of a finite float: the fraction is dropped, towards zero.\<close>

definition int_of_float :: "rat \<Rightarrow> int" where
  "int_of_float x = (if 0 \<le> x then \<lfloor>x\<rfloor> else \<lceil>x\<rceil>)"

text \<open>The literal \<open>1.91\<close>: the binary64 number nearest to 191/100.\<close>

definition target_ratio :: rat where
  "target_ratio = rnd (191 / 100)"

text \<open>The exponent of the last place of a positive \<open>x\<close>.\<close>

definition ulp_exp :: "rat \<Rightarrow> int" where
  "ulp_exp x = max (binade x - 52) (- 1074)"

section \<open>Images and the imaging library\<close>

text \<open>
  An image is its size, its mode and its pixels; a pixel is read inside the size only.
  \<open>Image.new\<close>, \<open>paste\<close> without a mask and \<open>crop\<close> are written out: they move
  pixels and compute nothing.
\<close>

type_synonym rgb = "nat \<times> nat \<times> nat"

record image =
  width :: int
  height :: int
  mode :: string
  pixel :: "int \<Rightarrow> int \<Rightarrow> rgb"

definition image_new :: "int \<times> int \<Rightarrow> rgb \<Rightarrow> image" where
  "image_new sz c = \<lparr> width = fst sz, height = snd sz, mode = ''RGB'', pixel = (\<lambda>x y. c) \<rparr>"

text \<open>\<open>canvas.paste(img, (x, y))\<close>: the box of the size of \<open>img\<close> at \<open>(x, y)\<close> is overwritten.\<close>

definition paste :: "image \<Rightarrow> image \<Rightarrow> int \<times> int \<Rightarrow> image" where
  "paste canvas img pos =
     canvas\<lparr> pixel := (\<lambda>x y.
       if fst pos \<le> x \<and> x < fst pos + width img \<and> snd pos \<le> y \<and> y < snd pos + height img
       then pixel img (x - fst pos) (y - snd pos)
       else pixel canvas x y) \<rparr>"

text \<open>\<open>img.crop((left, top, right, bottom))\<close>; outside the source the crop is black.\<close>

definition crop :: "image \<Rightarrow> int \<times> int \<times> int \<times> int \<Rightarrow> image" where
  "crop img box =
     (case box of (left_x, top_y, right_x, bottom_y) \<Rightarrow>
        \<lparr> width = right_x - left_x, height = bottom_y - top_y, mode = mode img,
          pixel = (\<lambda>x y.
            if 0 \<le> x + left_x \<and> x + left_x < width img \<and> 0 \<le> y + top_y \<and> y + top_y < height img
            then pixel img (x + left_x) (y + top_y) else (0, 0, 0)) \<rparr>)"

text \<open>
  What the library computes is a parameter: decoding a file, the pixels of a resized image
  (the Lanczos filter), the conversions to RGB, fonts and drawing, and saving. Each may
  raise. \<open>image_save img name format old\<close> answers the exception it raised, if any, and
  the content of the file \<open>name\<close> afterwards, \<open>old\<close> being its content before.
\<close>

datatype font = Font nat

record pil =
  image_open :: "bytes \<Rightarrow> error + image"
  resample :: "image \<Rightarrow> int \<times> int \<Rightarrow> error + (int \<Rightarrow> int \<Rightarrow> rgb)"
  convert_rgb :: "image \<Rightarrow> error + image"
  paste_with_alpha :: "image \<Rightarrow> image \<Rightarrow> error + image"
  image_save :: "image \<Rightarrow> ustr \<Rightarrow> string option \<Rightarrow> bytes option \<Rightarrow> error option \<times> bytes option"
  truetype :: "string \<Rightarrow> nat \<Rightarrow> error + font"
  load_default :: "error + font"
  textbbox :: "font \<Rightarrow> ustr \<Rightarrow> error + (int \<times> int \<times> int \<times> int)"
  draw_rectangle :: "image \<Rightarrow> int \<times> int \<times> int \<times> int \<Rightarrow> rgb \<Rightarrow> error + image"
  draw_text :: "image \<Rightarrow> int \<times> int \<Rightarrow> ustr \<Rightarrow> font \<Rightarrow> error + image"

text \<open>\<open>img.resize(size, LANCZOS)\<close>: an image of the size asked for.\<close>

definition resize :: "pil \<Rightarrow> image \<Rightarrow> int \<times> int \<Rightarrow> error + image" where
  "resize P img sz =
     and_then (resample P img sz)
       (\<lambda>px. Inr \<lparr> width = fst sz, height = snd sz, mode = mode img, pixel = px \<rparr>)"

section \<open>The card: one image normalised to 1200 by 628\<close>

definition target_w :: int where
  "target_w = 1200"

definition target_h :: int where
  "target_h = 628"

text \<open>\<open>new_w = int(w * (new_h / h))\<close>, with \<open>new_h = target_h\<close>.\<close>

definition padded_width :: "int \<Rightarrow> int \<Rightarrow> error + int" where
  "padded_width w h =
     and_then (int_truediv target_h h) (\<lambda>r.
     and_then (float_of_int w) (\<lambda>fw.
     and_then (float_mul fw r) (\<lambda>m. Inr (int_of_float m))))"

text \<open>\<open>target_h_crop = int(w / target_ratio)\<close>, lowered to \<open>h\<close> when it is above.\<close>

definition crop_height :: "int \<Rightarrow> int \<Rightarrow> error + int" where
  "crop_height w h =
     and_then (float_of_int w) (\<lambda>fw.
     and_then (float_div fw target_ratio) (\<lambda>q.
       let target_h_crop = int_of_float q in
       Inr (if target_h_crop > h then h else target_h_crop)))"

text \<open>
  The inner \<open>try\<close>: \<open>center_y = h / 2 - oy\<close>, \<open>top = int(center_y - target_h_crop / 2)\<close>,
  \<open>top = max(0, min(h - target_h_crop, top))\<close>.
\<close>

definition offset_top :: "int \<Rightarrow> int \<Rightarrow> int \<Rightarrow> error + int" where
  "offset_top h target_h_crop oy =
     and_then (int_truediv h 2) (\<lambda>half_h.
     and_then (float_of_int oy) (\<lambda>foy.
     and_then (float_sub half_h foy) (\<lambda>center_y.
     and_then (int_truediv target_h_crop 2) (\<lambda>half_crop.
     and_then (float_sub center_y half_crop) (\<lambda>t.
       Inr (max 0 (min (h - target_h_crop) (int_of_float t))))))))"

text \<open>\<open>top\<close>: the offset's when there is one and the inner \<open>try\<close> passes, the centre otherwise.\<close>

definition crop_top :: "int \<Rightarrow> int \<Rightarrow> int option \<Rightarrow> int" where
  "crop_top h target_h_crop offset_y =
     (case offset_y of
        None \<Rightarrow> (h - target_h_crop) div 2
      | Some oy \<Rightarrow>
          (case offset_top h target_h_crop oy of
             Inr top_y \<Rightarrow> top_y
           | Inl _ \<Rightarrow> (h - target_h_crop) div 2))"

text \<open>The body of the outer \<open>try\<close>, from the opened image to the image that is saved.\<close>

definition normalize_card :: "pil \<Rightarrow> image \<Rightarrow> int option \<Rightarrow> error + image" where
  "normalize_card P img offset_y =
     (let w = width img; h = height img in
      and_then (if h > 0 then int_truediv w h else Inr 1) (\<lambda>img_ratio.
        if img_ratio \<le> 1 then
          and_then (padded_width w h) (\<lambda>new_w.
          and_then (resize P img (new_w, target_h)) (\<lambda>img_resized.
            Inr (paste (image_new (target_w, target_h) (0, 0, 0)) img_resized
                   ((target_w - new_w) div 2, 0))))
        else
          and_then (crop_height w h) (\<lambda>target_h_crop.
            let top_y = crop_top h target_h_crop offset_y;
                bottom_y = top_y + target_h_crop
            in resize P (crop img (0, top_y, w, bottom_y)) (target_w, target_h))))"

text \<open>
  The outer \<open>try ... except Exception: pass\<close> on the saved file: open, normalise, save
  over the upload; any exception is dropped.
\<close>

definition normalize_saved_file :: "pil \<Rightarrow> ustr \<Rightarrow> int option \<Rightarrow> (ustr \<rightharpoonup> bytes) \<Rightarrow> (ustr \<rightharpoonup> bytes)" where
  "normalize_saved_file P name offset_y fs =
     (case and_then (case fs name of None \<Rightarrow> Inl (OtherError ''FileNotFoundError'')
                     | Some data \<Rightarrow> image_open P data)
             (\<lambda>img. normalize_card P img offset_y) of
        Inl _ \<Rightarrow> fs
      | Inr out \<Rightarrow> fs(name := snd (image_save P out name None (fs name))))"

section \<open>The grid\<close>

text \<open>The layout by the number of images: columns and rows.\<close>

definition grid_layout :: "nat \<Rightarrow> int \<times> int" where
  "grid_layout num_images =
     (if num_images = 2 then (2, 1)
      else if num_images = 3 then (3, 1)
      else if num_images = 4 then (2, 2)
      else (3, 2))"

text \<open>The column and the row of the image at \<open>idx\<close>.\<close>

definition grid_cell :: "nat \<Rightarrow> int \<Rightarrow> nat \<Rightarrow> int \<times> int" where
  "grid_cell num_images cols idx =
     (if num_images = 5
      then (if idx < 3 then (int idx, 0) else (int idx - 3 + 1, 1))
      else (int idx mod cols, int idx div cols))"

text \<open>The loop over \<open>enumerate(image_files)\<close>: resize to the cell, paste at the cell's origin.\<close>

fun paste_grid ::
  "pil \<Rightarrow> nat \<Rightarrow> int \<Rightarrow> int \<times> int \<Rightarrow> nat \<Rightarrow> image list \<Rightarrow> image \<Rightarrow> error + image" where
  "paste_grid P num_images cols cell idx [] canvas = Inr canvas"
| "paste_grid P num_images cols cell idx (img # imgs) canvas =
     and_then (resize P img cell) (\<lambda>img_resized.
       let (col, row) = grid_cell num_images cols idx;
           x = col * fst cell;
           y = row * snd cell
       in paste_grid P num_images cols cell (Suc idx) imgs (paste canvas img_resized (x, y)))"

text \<open>The fonts tried in turn, each \<open>except\<close> leading to the next.\<close>

definition load_font :: "pil \<Rightarrow> error + font" where
  "load_font P =
     (case truetype P ''arial.ttf'' 120 of
        Inr f \<Rightarrow> Inr f
      | Inl _ \<Rightarrow>
          (case truetype P ''/System/Library/Fonts/Helvetica.ttc'' 120 of
             Inr f \<Rightarrow> Inr f
           | Inl _ \<Rightarrow> load_default P))"

text \<open>
  The overlay, inside \<open>try ... except Exception: pass\<close>. The canvas is drawn on in
  place: what a call has drawn stays when a later call raises.
\<close>

definition draw_overlay :: "pil \<Rightarrow> image \<Rightarrow> ustr \<Rightarrow> int \<times> int \<Rightarrow> image" where
  "draw_overlay P canvas overlay_text target_size =
     (case load_font P of
        Inl _ \<Rightarrow> canvas
      | Inr fnt \<Rightarrow>
          (case textbbox P fnt overlay_text of
             Inl _ \<Rightarrow> canvas
           | Inr (b0, b1, b2, b3) \<Rightarrow>
               let text_w = b2 - b0;
                   text_h = b3 - b1;
                   padding = 20;
                   box_x = fst target_size - text_w - padding * 2;
                   box_y = snd target_size - text_h - padding * 2
               in (case draw_rectangle P canvas
                          (box_x - padding, box_y - padding,
                           box_x + text_w + padding, box_y + text_h + padding)
                          (255, 255, 255) of
                     Inl _ \<Rightarrow> canvas
                   | Inr canvas1 \<Rightarrow>
                       (case draw_text P canvas1 (box_x, box_y) overlay_text fnt of
                          Inl _ \<Rightarrow> canvas1
                        | Inr canvas2 \<Rightarrow> canvas2))))"

text \<open>The canvas with the images pasted, before the overlay.\<close>

definition grid_canvas :: "pil \<Rightarrow> image list \<Rightarrow> int \<times> int \<Rightarrow> error + image" where
  "grid_canvas P image_files target_size =
     (let imgs = take 5 image_files;
          num_images = length imgs;
          (cols, rows) = grid_layout num_images;
          cell_w = fst target_size div cols;
          cell_h = snd target_size div rows
      in paste_grid P num_images cols (cell_w, cell_h) 0 imgs
           (image_new target_size (255, 255, 255)))"

definition create_grid_image ::
  "pil option \<Rightarrow> image list \<Rightarrow> ustr option \<Rightarrow> int \<times> int \<Rightarrow> error + image" where
  "create_grid_image lib image_files overlay_text target_size =
     (case lib of
        None \<Rightarrow> Inl (ValueError ''Pillow (PIL) is required for grid image generation'')
      | Some P \<Rightarrow>
          if length image_files < 2 then Inl (ValueError ''Need at least 2 images for grid'')
          else
            and_then (grid_canvas P image_files target_size) (\<lambda>canvas.
              Inr (case overlay_text of
                     None \<Rightarrow> canvas
                   | Some t \<Rightarrow> if t = [] then canvas else draw_overlay P canvas t target_size)))"

section \<open>The upload and the grid handlers\<close>

text \<open>
  An uploaded file as the handlers read it, and what comes from outside the program: the
  framework's \<open>secure_filename\<close> (its result is ASCII) and \<open>url_for\<close>, Python's
  \<open>int(s)\<close> on a string (\<open>None\<close> when it raises \<open>ValueError\<close>) and \<open>s.strip()\<close>,
  and the imaging library, \<open>None\<close> when it is not installed.
\<close>

record file_storage =
  fs_filename :: "ustr option"
  fs_mimetype :: ustr
  fs_content_type :: "ustr option"
  fs_data :: bytes

record env =
  secure_filename :: "ustr \<Rightarrow> string"
  url_for_static :: "ustr \<Rightarrow> ustr"
  url_for_image_view :: "ustr \<Rightarrow> ustr"
  url_for_delete :: "ustr \<Rightarrow> ustr"
  parse_int :: "ustr \<Rightarrow> int option"
  strip :: "ustr \<Rightarrow> ustr"
  pillow :: "pil option"

definition ALLOWED_IMAGE_EXTENSIONS :: "string list" where
  "ALLOWED_IMAGE_EXTENSIONS = [''.png'', ''.jpg'', ''.jpeg'', ''.webp'', ''.gif'']"

text \<open>
  The second component of \<open>os.path.splitext\<close>: from the last dot of the last path
  component on, when a character other than a dot stands before that dot; empty otherwise.
\<close>

definition splitext_ext :: "string \<Rightarrow> string" where
  "splitext_ext p =
     (let base = rev (takeWhile (\<lambda>c. c \<noteq> CHR ''/'') (rev p)) in
      if CHR ''.'' \<in> set base
      then (let ext = CHR ''.'' # rev (takeWhile (\<lambda>c. c \<noteq> CHR ''.'') (rev base));
                stem = take (length base - length ext) base
            in if list_ex (\<lambda>c. c \<noteq> CHR ''.'') stem then ext else [])
      else [])"

definition is_allowed_image_filename :: "string \<Rightarrow> bool" where
  "is_allowed_image_filename name = (lower (splitext_ext name) \<in> set ALLOWED_IMAGE_EXTENSIONS)"

text \<open>\<open>getattr(f, 'mimetype', '') or getattr(f, 'content_type', '')\<close> and the test on it.\<close>

definition upload_content_type :: "file_storage \<Rightarrow> ustr option" where
  "upload_content_type f = (if fs_mimetype f \<noteq> [] then Some (fs_mimetype f) else fs_content_type f)"

definition is_image_content_type :: "file_storage \<Rightarrow> bool" where
  "is_image_content_type f =
     (case upload_content_type f of
        None \<Rightarrow> False
      | Some c \<Rightarrow> c \<noteq> [] \<and> startswith c (T ''image/''))"

text \<open>
  \<open>_save_uploaded_image_for_image_host\<close>: the result or the \<open>ValueError\<close>, and the
  upload directory afterwards.
\<close>

definition save_uploaded_image_for_image_host ::
  "env \<Rightarrow> file_storage \<Rightarrow> ustr \<Rightarrow> int option \<Rightarrow> (ustr \<rightharpoonup> bytes)
     \<Rightarrow> (error + ustr \<times> ustr \<times> ustr) \<times> (ustr \<rightharpoonup> bytes)" where
  "save_uploaded_image_for_image_host E f image_id offset_y fs =
     (let name = secure_filename E (or_else (fs_filename f) []) in
      if name = [] \<or> \<not> is_allowed_image_filename name
      then (Inl (ValueError ''Invalid image file type''), fs)
      else if \<not> is_image_content_type f
      then (Inl (ValueError ''Invalid image file type''), fs)
      else
        let ext = splitext_ext name;
            saved_name = image_id @ T (lower ext);
            fs1 = fs(saved_name \<mapsto> fs_data f);
            fs2 = (case pillow E of
                     None \<Rightarrow> fs1
                   | Some P \<Rightarrow> normalize_saved_file P saved_name offset_y fs1)
        in (Inr (saved_name, url_for_static E saved_name, url_for_image_view E image_id), fs2))"

text \<open>
  \<open>INSERT INTO images\<close>: the primary key refuses an id that is there
  (\<open>sqlite3.IntegrityError\<close>).
\<close>

definition insert_image :: "image_row \<Rightarrow> image_row list \<Rightarrow> error + image_row list" where
  "insert_image r rows =
     (if select_image rows (img_id r) \<noteq> None then Inl (OtherError ''IntegrityError'')
      else Inr (rows @ [r]))"

subsection \<open>The upload\<close>

record upload_request =
  u_file :: "file_storage option"
  u_title :: "ustr option"
  u_description :: "ustr option"
  u_expiry_minutes :: "ustr option"
  u_offset_y :: "ustr option"

text \<open>
  \<open>api_upload\<close>. The clock is read by the sweep, for \<open>expires_at\<close> and for
  \<open>created_at\<close>; \<open>image_id\<close> and \<open>token\<close> are the random id and the random
  delete token.
\<close>

definition api_upload ::
  "env \<Rightarrow> int \<Rightarrow> int \<Rightarrow> int \<Rightarrow> ustr \<Rightarrow> ustr \<Rightarrow> upload_request \<Rightarrow> store \<Rightarrow> response \<times> store" where
  "api_upload E now_sweep now_expiry now_created image_id token req st0 =
     (let st = cleanup_expired_images now_sweep st0 in
      case u_file req of
        None \<Rightarrow> (Json_error 400 ''Missing file'', st)
      | Some f \<Rightarrow>
          if \<not> truthy (fs_filename f) then (Json_error 400 ''Missing file'', st)
          else
            let title = strip E (or_else (u_title req) []);
                description = strip E (or_else (u_description req) []);
                expiry = (if truthy (u_expiry_minutes req)
                          then (case parse_int E (the (u_expiry_minutes req)) of
                                  None \<Rightarrow> Inl (ValueError ''Invalid expiry_minutes'')
                                | Some m \<Rightarrow> Inr (if m > 0 then Some (now_expiry + m * 60) else None))
                          else Inr None)
            in case expiry of
                 Inl _ \<Rightarrow> (Json_error 400 ''Invalid expiry_minutes'', st)
               | Inr expires \<Rightarrow>
                   let offset_y_val = (if truthy (u_offset_y req)
                                       then parse_int E (the (u_offset_y req)) else None)
                   in case save_uploaded_image_for_image_host E f image_id offset_y_val (files st) of
                        (Inl (ValueError msg), fs) \<Rightarrow> (Json_error 400 msg, st\<lparr>files := fs\<rparr>)
                      | (Inl (OtherError msg), fs) \<Rightarrow> (Server_error, st\<lparr>files := fs\<rparr>)
                      | (Inr (saved_name, direct_url, view_url), fs) \<Rightarrow>
                          (case insert_image
                                  \<lparr> img_id = image_id, filename = saved_name,
                                    content_type = fs_mimetype f, img_title = title,
                                    img_description = description, created_at = now_created,
                                    expires_at = expires, delete_token = token \<rparr>
                                  (images st) of
                             Inl _ \<Rightarrow> (Server_error, st\<lparr>files := fs\<rparr>)
                           | Inr rows \<Rightarrow>
                               (Json_created
                                  \<lparr> r_id = image_id, r_direct_url = direct_url,
                                    r_view_url = view_url,
                                    r_delete_url = url_for_delete E image_id,
                                    r_delete_token = token, r_expires_at = Some expires \<rparr>,
                                \<lparr> images = rows, files = fs \<rparr>)))"

subsection \<open>The grid\<close>

record grid_request =
  g_files :: "file_storage list"
  g_overlay_text :: "ustr option"

text \<open>
  The loop that loads the images: a file without a name, with a name or a content type
  that is not an image's, is skipped; the first file that passes is where a missing
  library is noticed; a file in mode RGBA is pasted on white through its alpha band, one
  in another mode than RGB is converted.
\<close>

datatype load_result = Loaded "image list" | No_pillow | Load_error error

definition to_rgb :: "pil \<Rightarrow> image \<Rightarrow> error + image" where
  "to_rgb P img =
     (if mode img = ''RGBA''
      then paste_with_alpha P (image_new (width img, height img) (255, 255, 255)) img
      else if mode img \<noteq> ''RGB'' then convert_rgb P img
      else Inr img)"

fun load_images :: "env \<Rightarrow> file_storage list \<Rightarrow> image list \<Rightarrow> load_result" where
  "load_images E [] pil_images = Loaded pil_images"
| "load_images E (f # fs) pil_images =
     (if \<not> truthy (fs_filename f) then load_images E fs pil_images
      else
        let name = secure_filename E (or_else (fs_filename f) []) in
        if name = [] \<or> \<not> is_allowed_image_filename name then load_images E fs pil_images
        else if \<not> is_image_content_type f then load_images E fs pil_images
        else
          (case pillow E of
             None \<Rightarrow> No_pillow
           | Some P \<Rightarrow>
               (case and_then (image_open P (fs_data f)) (to_rgb P) of
                  Inl e \<Rightarrow> Load_error e
                | Inr img \<Rightarrow> load_images E fs (pil_images @ [img]))))"

text \<open>What the two \<open>except\<close> clauses of \<open>api_create_grid\<close> answer.\<close>

fun grid_failure :: "error \<Rightarrow> response" where
  "grid_failure (ValueError msg) = Json_error 400 msg"
| "grid_failure (OtherError msg) = Json_error 500 (''Grid creation failed: '' @ msg)"

text \<open>
  \<open>api_create_grid\<close>. The clock is read by the sweep and for \<open>created_at\<close>. The row is
  inserted with \<open>None\<close> for \<open>expires_at\<close>.
\<close>

definition api_create_grid ::
  "env \<Rightarrow> int \<Rightarrow> int \<Rightarrow> ustr \<Rightarrow> ustr \<Rightarrow> grid_request \<Rightarrow> store \<Rightarrow> response \<times> store" where
  "api_create_grid E now_sweep now_created image_id token req st0 =
     (let st = cleanup_expired_images now_sweep st0;
          fls = g_files req;
          overlay_text = strip E (or_else (g_overlay_text req) [])
      in
      if length fls < 2 then (Json_error 400 ''Need at least 2 images'', st)
      else if length fls > 5 then (Json_error 400 ''Maximum 5 images allowed'', st)
      else
        (case load_images E fls [] of
           No_pillow \<Rightarrow> (Json_error 500 ''Pillow (PIL) is required for grid image generation'', st)
         | Load_error e \<Rightarrow> (grid_failure e, st)
         | Loaded pil_images \<Rightarrow>
             if length pil_images < 2 then (Json_error 400 ''Need at least 2 valid images'', st)
             else
               (case create_grid_image (pillow E) pil_images
                       (if overlay_text \<noteq> [] then Some overlay_text else None) (1200, 628) of
                  Inl e \<Rightarrow> (grid_failure e, st)
                | Inr grid_image \<Rightarrow>
                    let ext0 = splitext_ext (secure_filename E (or_else (fs_filename (hd fls)) []));
                        ext = (if ext0 = [] then ''.jpg'' else ext0);
                        saved_name = image_id @ T (lower ext);
                        saved = (case pillow E of
                                   None \<Rightarrow> (Some (OtherError ''AttributeError''), files st saved_name)
                                 | Some P \<Rightarrow> image_save P grid_image saved_name (Some ''JPEG'')
                                              (files st saved_name));
                        fs = (files st)(saved_name := snd saved)
                    in (case fst saved of
                          Some e \<Rightarrow> (grid_failure e, st\<lparr>files := fs\<rparr>)
                        | None \<Rightarrow>
                            (case insert_image
                                    \<lparr> img_id = image_id, filename = saved_name,
                                      content_type = T ''image/jpeg'', img_title = [],
                                      img_description = [], created_at = now_created,
                                      expires_at = None, delete_token = token \<rparr>
                                    (images st) of
                               Inl e \<Rightarrow> (grid_failure e, st\<lparr>files := fs\<rparr>)
                             | Inr rows \<Rightarrow>
                                 (Json_created
                                    \<lparr> r_id = image_id,
                                      r_direct_url = url_for_static E saved_name,
                                      r_view_url = url_for_image_view E image_id,
                                      r_delete_url = url_for_delete E image_id,
                                      r_delete_token = token, r_expires_at = None \<rparr>,
                                  \<lparr> images = rows, files = fs \<rparr>))))))"

section \<open>Records by the operation that created them\<close>

text \<open>
  A row is created by a call of a handler when it is in the table after the call and was
  not in the table the sweep at the start of the call left.
\<close>

definition created_by_grid ::
  "env \<Rightarrow> int \<Rightarrow> int \<Rightarrow> ustr \<Rightarrow> ustr \<Rightarrow> grid_request \<Rightarrow> store \<Rightarrow> image_row \<Rightarrow> bool" where
  "created_by_grid E now_sweep now_created image_id token req st r =
     (r \<in> set (images (snd (api_create_grid E now_sweep now_created image_id token req st)))
      \<and> r \<notin> set (images (cleanup_expired_images now_sweep st)))"

definition created_by_upload ::
  "env \<Rightarrow> int \<Rightarrow> int \<Rightarrow> int \<Rightarrow> ustr \<Rightarrow> ustr \<Rightarrow> upload_request \<Rightarrow> store \<Rightarrow> image_row \<Rightarrow> bool" where
  "created_by_upload E now_sweep now_expiry now_created image_id token req st r =
     (r \<in> set (images (snd (api_upload E now_sweep now_expiry now_created image_id token req st)))
      \<and> r \<notin> set (images (cleanup_expired_images now_sweep st)))"

text \<open>The expiry an upload asks for: \<open>expiry_minutes\<close> read as an integer above zero.\<close>

definition requested_expiry :: "env \<Rightarrow> int \<Rightarrow> upload_request \<Rightarrow> int option" where
  "requested_expiry E now req =
     (case u_expiry_minutes req of
        None \<Rightarrow> None
      | Some raw \<Rightarrow>
          (case parse_int E raw of
             None \<Rightarrow> None
           | Some m \<Rightarrow> if raw \<noteq> [] \<and> m > 0 then Some (now + m * 60) else None))"

section \<open>An instance of the outside, for the concrete evaluations\<close>

text \<open>
  A file of three bytes \<open>[w, h, v]\<close> decodes to the RGB image of that size and of the one
  grey \<open>v\<close>; resizing takes the nearest pixel; no TrueType font is found and the default
  font is ten pixels a character; saving writes the size.
\<close>

definition fill_rectangle :: "image \<Rightarrow> int \<times> int \<times> int \<times> int \<Rightarrow> rgb \<Rightarrow> image" where
  "fill_rectangle img box c =
     (case box of (x0, y0, x1, y1) \<Rightarrow>
        img\<lparr> pixel := (\<lambda>x y. if x0 \<le> x \<and> x \<le> x1 \<and> y0 \<le> y \<and> y \<le> y1 then c else pixel img x y) \<rparr>)"

definition example_open :: "bytes \<Rightarrow> error + image" where
  "example_open data =
     (case data of
        [w, h, v] \<Rightarrow> Inr \<lparr> width = int w, height = int h, mode = ''RGB'', pixel = (\<lambda>x y. (v, v, v)) \<rparr>
      | _ \<Rightarrow> Inl (OtherError ''UnidentifiedImageError''))"

definition example_pil :: pil where
  "example_pil = \<lparr>
     image_open = example_open,
     resample = (\<lambda>img sz. Inr (\<lambda>x y. pixel img (x * width img div fst sz) (y * height img div snd sz))),
     convert_rgb = (\<lambda>img. Inr (img\<lparr>mode := ''RGB''\<rparr>)),
     paste_with_alpha = (\<lambda>canvas img. Inr (paste canvas img (0, 0))),
     image_save = (\<lambda>img name fmt old. (None, Some [nat (width img), nat (height img)])),
     truetype = (\<lambda>name sz. Inl (OtherError ''OSError'')),
     load_default = Inr (Font 0),
     textbbox = (\<lambda>fnt t. Inr (0, 0, 10 * int (length t), 11)),
     draw_rectangle = (\<lambda>img box c. Inr (fill_rectangle img box c)),
     draw_text = (\<lambda>img pos t fnt.
        Inr (fill_rectangle img (fst pos, snd pos, fst pos + 10 * int (length t) - 1, snd pos + 10) (0, 0, 0)))
   \<rparr>"

text \<open>A name is kept as it is, and \<open>int(s)\<close> reads one decimal digit.\<close>

definition example_env :: env where
  "example_env = \<lparr>
     secure_filename = map char_of,
     url_for_static = (\<lambda>name. T ''https://cards.example/static/uploads/'' @ name),
     url_for_image_view = (\<lambda>i. T ''https://cards.example/i/'' @ i),
     url_for_delete = (\<lambda>i. T ''https://cards.example/api/images/'' @ i @ T ''/delete''),
     parse_int = (\<lambda>s. case s of [d] \<Rightarrow> if 48 \<le> d \<and> d \<le> 57 then Some (int d - 48) else None
                         | _ \<Rightarrow> None),
     strip = (\<lambda>s. s),
     pillow = Some example_pil
   \<rparr>"

definition example_file :: "string \<Rightarrow> bytes \<Rightarrow> file_storage" where
  "example_file name data = \<lparr> fs_filename = Some (T name), fs_mimetype = T ''image/png'',
     fs_content_type = Some (T ''image/png''), fs_data = data \<rparr>"

definition empty_store :: store where
  "empty_store = \<lparr> images = [], files = Map.empty \<rparr>"

definition example_grid_request :: grid_request where
  "example_grid_request = \<lparr> g_files = [example_file ''a.jpg'' [4, 4, 10], example_file ''b.png'' [2, 6, 20]],
     g_overlay_text = None \<rparr>"

text \<open>An upload whose file the instance does not decode, so that it is kept as it came.\<close>

definition example_upload_request :: upload_request where
  "example_upload_request = \<lparr> u_file = Some (example_file ''c.png'' [7]), u_title = None,
     u_description = None, u_expiry_minutes = Some (T ''5''), u_offset_y = None \<rparr>"

text \<open>Images for the concrete evaluations: one grey each.\<close>

definition grey_image :: "int \<Rightarrow> int \<Rightarrow> nat \<Rightarrow> image" where
  "grey_image w h v = \<lparr> width = w, height = h, mode = ''RGB'', pixel = (\<lambda>x y. (v, v, v)) \<rparr>"

section \<open>The landscape crop, in the words of the specification\<close>

text \<open>
  The crop height is the width divided by 1.91, whole pixels, and at most the height of
  the source. The top of the window is the centre, moved up by the offset when there is
  one, and then clamped to the source.
\<close>

definition claimed_crop_height :: "int \<Rightarrow> int \<Rightarrow> int" where
  "claimed_crop_height w h = min \<lfloor>of_int w / (191 / 100 :: rat)\<rfloor> h"




text \<open>
  An imaging library whose \<open>save\<close> raises after it has opened the file for writing, so
  that the file is left empty: \<open>Image.save\<close> opens its target before the encoder runs, and
  an encoder that refuses the image (JPEG refuses one with an alpha band or a palette)
  raises with the file already emptied. And an upload of a landscape image.
\<close>

definition truncating_pil :: pil where
  "truncating_pil = example_pil\<lparr> image_save :=
     (\<lambda>img name fmt old. (Some (OtherError ''OSError''), Some [])) \<rparr>"

definition wide_upload_request :: upload_request where
  "wide_upload_request = \<lparr> u_file = Some (example_file ''w.jpg'' [4, 2, 10]), u_title = None,
     u_description = None, u_expiry_minutes = None, u_offset_y = None \<rparr>"

section \<open>Properties of the visit handler\<close>

lemma str_in_iff_sublist: "str_in needle hay \<longleftrightarrow> sublist needle hay"
  by (induction hay) (auto simp: sublist_Cons_right)

lemma sublist_map_iff: "sublist u (map f xs) \<longleftrightarrow> (\<exists>v. sublist v xs \<and> map f v = u)"
proof
  assume "sublist u (map f xs)"
  then obtain ps ss where "map f xs = ps @ u @ ss" by (auto simp: sublist_def)
  then obtain a b c where "xs = a @ b @ c" "map f b = u"
    by (metis map_eq_append_conv)
  then show "\<exists>v. sublist v xs \<and> map f v = u" by (auto simp: sublist_def)
next
  assume "\<exists>v. sublist v xs \<and> map f v = u"
  then obtain v ps ss where "xs = ps @ v @ ss" "map f v = u" by (auto simp: sublist_def)
  then have "map f xs = map f ps @ u @ map f ss" by simp
  then show "sublist u (map f xs)" unfolding sublist_def by blast
qed

lemma lower_signature: "sig \<in> set BOT_SIGNATURES \<Longrightarrow> lower sig = sig"
  by (auto simp: BOT_SIGNATURES_def lower_def lower_char_def)

lemma is_bot_iff: "is_bot r \<longleftrightarrow> has_crawler_signature (user_agent r)"
  unfolding is_bot_def has_crawler_signature_def contains_ci_def Let_def list_ex_iff
    str_in_iff_sublist
  by (auto simp: lower_def sublist_map_iff lower_signature[unfolded lower_def])

lemma lookup_link_stored:
  "distinct (map slug links) \<Longrightarrow> l \<in> set links \<Longrightarrow> lookup_link links (slug l) = Some l"
  unfolding lookup_link_def
  by (induction links) (auto simp: rev_image_eqI)

text \<open>
  C1. For a stored link record and a visit of its slug: when the user-agent contains, up
  to case, a signature of the crawler list, the response is the metadata document of the
  record and its status is not a 3xx; for every other user-agent (also a missing one) the
  response is the redirect with status 302 to the record's stored destination.
\<close>

theorem visit_existing_slug:
  assumes "distinct (map slug links)" and "l \<in> set links"
  shows "(has_crawler_signature (user_agent r) \<longrightarrow>
            (\<exists>doc. redirect_handler links r (slug l) = Rendered_meta doc
                \<and> m_title doc = title l \<and> m_dest_url doc = dest_url l)
            \<and> \<not> is_3xx (status_of (redirect_handler links r (slug l))))
       \<and> (\<not> has_crawler_signature (user_agent r) \<longrightarrow>
            redirect_handler links r (slug l) = Redirect 302 (dest_url l))"
  using lookup_link_stored[OF assms]
  by (simp add: redirect_handler_def is_bot_iff is_3xx_def)

theorem visit_existing_slug_witness:
  "has_crawler_signature (Some ''Mozilla/5.0 FacebookExternalHit/1.1'')
   \<and> \<not> is_3xx (status_of (redirect_handler [example_link]
          (example_request ''Mozilla/5.0 FacebookExternalHit/1.1'') (T ''aB3dE9'')))
   \<and> \<not> has_crawler_signature (Some ''Mozilla/5.0 (X11; Linux) Firefox/120'')
   \<and> redirect_handler [example_link]
          (example_request ''Mozilla/5.0 (X11; Linux) Firefox/120'') (T ''aB3dE9'')
        = Redirect 302 (T ''https://shop.example/item'')"
proof -
  have bot: "is_bot (example_request ''Mozilla/5.0 FacebookExternalHit/1.1'')"
    by code_simp
  have human: "\<not> is_bot (example_request ''Mozilla/5.0 (X11; Linux) Firefox/120'')"
    by code_simp
  have d: "distinct (map slug [example_link])" and m: "example_link \<in> set [example_link]"
    by simp_all
  have s: "slug example_link = T ''aB3dE9''" and u: "dest_url example_link = T ''https://shop.example/item''"
    by (simp_all add: example_link_def)
  have ua: "user_agent (example_request x) = Some x" for x
    by (simp add: example_request_def)
  from bot human show ?thesis
    using visit_existing_slug[OF d m, of "example_request ''Mozilla/5.0 FacebookExternalHit/1.1''"]
      visit_existing_slug[OF d m, of "example_request ''Mozilla/5.0 (X11; Linux) Firefox/120''"]
    by (simp add: is_bot_iff s u ua)
qed

section \<open>The emitted image URL\<close>

lemma lstrip_no_slash: "\<not> startswith img (T ''/'') \<Longrightarrow> lstrip 47 img = img"
  by (cases img) (auto simp: startswith_def lstrip_def T_def)

lemma absolute_img_url_cases:
  "absolute_img_url r stored =
     (case stored of None \<Rightarrow> []
      | Some ref \<Rightarrow> if ref = [] then [] else claimed_img_url r ref)"
  by (auto simp: absolute_img_url_def claimed_img_url_def or_else_def site_root_def
      lstrip_no_slash Let_def split: option.splits)

text \<open>
  C8, as stated, fails on a stored reference that is the empty string: the claim's third
  case makes it the site root and a slash, the handler emits the empty string (the guard
  \<open>if img_url and ...\<close>). \<open>create\<close> stores the empty string when the image comes as an
  uploaded file.
\<close>

theorem empty_image_ref_counterexample:
  "is_bot (example_request ''facebot'')
   \<and> emitted_img (redirect_handler [example_link\<lparr>img_url := Some []\<rparr>]
         (example_request ''facebot'') (T ''aB3dE9'')) = Some []
   \<and> claimed_img_url (example_request ''facebot'') [] = T ''https://cards.example/''
   \<and> emitted_img (redirect_handler [example_link\<lparr>img_url := Some []\<rparr>]
         (example_request ''facebot'') (T ''aB3dE9''))
       \<noteq> Some (claimed_img_url (example_request ''facebot'') [])"
  by code_simp

text \<open>
  C8, amended. For every bot-classified visit of a stored slug the emitted image URL is:
  the empty string when the stored reference is empty or NULL; otherwise the reference
  unchanged when it starts with \<open>http://\<close> or \<open>https://\<close>, the scheme, \<open>://\<close>, the
  host and the reference when it starts with a slash, and the site root, a slash and the
  reference in every other case.
\<close>

theorem emitted_image_url:
  assumes "distinct (map slug links)" and "l \<in> set links" and "is_bot r"
  shows "emitted_img (redirect_handler links r (slug l)) =
           Some (case img_url l of None \<Rightarrow> []
                 | Some ref \<Rightarrow>
                     if ref = [] then []
                     else if startswith ref (T ''http://'') \<or> startswith ref (T ''https://'')
                       then ref
                     else if startswith ref (T ''/'') then scheme r @ T ''://'' @ host r @ ref
                     else site_root r @ T ''/'' @ ref)"
  using lookup_link_stored[OF assms(1,2)] assms(3)
  by (simp add: redirect_handler_def absolute_img_url_cases claimed_img_url_def
      split: option.splits)

theorem emitted_image_url_witness:
  "is_bot (example_request ''facebot'')
   \<and> emitted_img (redirect_handler [example_link] (example_request ''facebot'') (T ''aB3dE9''))
       = Some (T ''https://cards.example/static/uploads/aB3dE9.png'')
   \<and> emitted_img (redirect_handler [example_link\<lparr>img_url := Some (T ''uploads/a.png'')\<rparr>]
         (example_request ''facebot'') (T ''aB3dE9''))
       = Some (T ''https://cards.example/uploads/a.png'')
   \<and> emitted_img (redirect_handler [example_link\<lparr>img_url := Some (T ''http://cdn.example/a.png'')\<rparr>]
         (example_request ''facebot'') (T ''aB3dE9''))
       = Some (T ''http://cdn.example/a.png'')"
proof -
  have bot: "is_bot (example_request ''facebot'')"
    by code_simp
  have s: "slug (example_link\<lparr>img_url := x\<rparr>) = T ''aB3dE9''" for x
    by (simp add: example_link_def)
  have s0: "slug example_link = T ''aB3dE9''"
    by (simp add: example_link_def)
  have i0: "img_url example_link = Some (T ''/static/uploads/aB3dE9.png'')"
    by (simp add: example_link_def)
  have r: "site_root (example_request ''facebot'') = T ''https://cards.example''"
    "scheme (example_request ''facebot'') = T ''https''"
    "host (example_request ''facebot'') = T ''cards.example''"
    by code_simp+
  have c1: "startswith (T ''/static/uploads/aB3dE9.png'') (T ''/'')"
    "\<not> startswith (T ''/static/uploads/aB3dE9.png'') (T ''http://'')"
    "\<not> startswith (T ''/static/uploads/aB3dE9.png'') (T ''https://'')"
    "\<not> startswith (T ''uploads/a.png'') (T ''/'')"
    "\<not> startswith (T ''uploads/a.png'') (T ''http://'')"
    "\<not> startswith (T ''uploads/a.png'') (T ''https://'')"
    "startswith (T ''http://cdn.example/a.png'') (T ''http://'')"
    by code_simp+
  have ne: "T ''/static/uploads/aB3dE9.png'' \<noteq> []" "T ''uploads/a.png'' \<noteq> []"
    "T ''http://cdn.example/a.png'' \<noteq> []"
    by (simp_all add: T_def)
  have cat: "T ''https'' @ T ''://'' @ T ''cards.example'' @ T ''/static/uploads/aB3dE9.png''
      = T ''https://cards.example/static/uploads/aB3dE9.png''"
    "T ''https://cards.example'' @ T ''/'' @ T ''uploads/a.png'' = T ''https://cards.example/uploads/a.png''"
    by (simp_all add: T_def)
  show ?thesis
    using bot
      emitted_image_url[of "[example_link]" example_link "example_request ''facebot''"]
      emitted_image_url[of "[example_link\<lparr>img_url := Some (T ''uploads/a.png'')\<rparr>]"
        "example_link\<lparr>img_url := Some (T ''uploads/a.png'')\<rparr>" "example_request ''facebot''"]
      emitted_image_url[of "[example_link\<lparr>img_url := Some (T ''http://cdn.example/a.png'')\<rparr>]"
        "example_link\<lparr>img_url := Some (T ''http://cdn.example/a.png'')\<rparr>" "example_request ''facebot''"]
    by (simp add: s s0 i0 r c1 ne cat)
qed

section \<open>A visit of a slug that is not stored\<close>

lemma visit_unknown_slug:
  "lookup_link links s = None \<Longrightarrow> redirect_handler links r s = Plain 404 ''Link not found''"
  by (simp add: redirect_handler_def)

text \<open>
  C3. The visit of a Thai slug that is not stored: the path \<open>/\<close> followed by the
  letter \<open>U+0E01\<close> contains a character of the Thai range, the 404 handler would redirect
  it to the upload page, and the visit handler answers the 404 itself, as a returned
  response that never reaches the 404 handler.
\<close>

theorem thai_slug_not_recovered:
  "has_thai (T ''/'' @ [0x0E01])
   \<and> handle_not_found Some id (T ''/'' @ [0x0E01]) = Redirect 302 (T ''/upload'')
   \<and> lookup_link [example_link] [0x0E01] = None
   \<and> redirect_handler [example_link] (example_request ''Mozilla/5.0'') [0x0E01]
       = Plain 404 ''Link not found''"
  by code_simp

section \<open>The sweep and the deletion of an image\<close>

lemma sweep_fold_images:
  "images (fold sweep_row rs st) = filter (\<lambda>r. img_id r \<notin> img_id ` set rs) (images st)"
  by (induction rs arbitrary: st) (auto simp: sweep_row_def delete_image_def intro: filter_cong)

lemma sweep_fold_files:
  "files (fold sweep_row rs st) n = (if n \<in> filename ` set rs then None else files st n)"
  by (induction rs arbitrary: st) (auto simp: sweep_row_def remove_file_def)

lemma cleanup_images:
  assumes "distinct (map img_id (images st))"
  shows "images (cleanup_expired_images now st) = filter (\<lambda>r. \<not> is_expired now r) (images st)"
proof -
  have "(img_id r \<notin> img_id ` set (filter (is_expired now) (images st))) = (\<not> is_expired now r)"
    if "r \<in> set (images st)" for r
    using that assms by (auto simp: distinct_map inj_on_def)
  then show ?thesis
    unfolding cleanup_expired_images_def sweep_fold_images
    by (intro filter_cong) auto
qed

lemma cleanup_files:
  "files (cleanup_expired_images now st) n =
     (if \<exists>r \<in> set (images st). is_expired now r \<and> filename r = n then None else files st n)"
  unfolding cleanup_expired_images_def sweep_fold_files by auto

lemma select_image_Some:
  "distinct (map img_id rows) \<Longrightarrow> select_image rows i = Some r \<longleftrightarrow> r \<in> set rows \<and> img_id r = i"
  unfolding select_image_def
  by (induction rows) (auto simp: rev_image_eqI)

lemma select_image_None: "select_image rows i = None \<longleftrightarrow> i \<notin> img_id ` set rows"
  unfolding select_image_def by (auto simp: find_None_iff)

lemma select_image_id: "select_image rows i = Some r \<Longrightarrow> img_id r = i \<and> r \<in> set rows"
  unfolding select_image_def by (auto simp: find_Some_iff)

text \<open>What the sweep does to a row of a well-formed store: an expired row goes with its
  file, every other row stays with its file.\<close>

lemma cleanup_expired_row:
  assumes "store_ok st" and "row \<in> set (images st)" and "is_expired now row"
  shows "removed row (cleanup_expired_images now st)"
proof -
  have d: "distinct (map img_id (images st))" using assms(1) by (simp add: store_ok_def)
  have "r \<in> set (images st) \<Longrightarrow> img_id r = img_id row \<Longrightarrow> r = row" for r
    using d assms(2) by (auto simp: distinct_map inj_on_def)
  then have "img_id row \<notin> img_id ` set (filter (\<lambda>r. \<not> is_expired now r) (images st))"
    using assms(3) by auto
  then show ?thesis
    using assms(2,3) by (auto simp: removed_def cleanup_images[OF d] select_image_None cleanup_files)
qed

lemma cleanup_live_row:
  assumes "store_ok st" and "row \<in> set (images st)" and "\<not> is_expired now row"
  shows "untouched row st (cleanup_expired_images now st)"
proof -
  have d: "distinct (map img_id (images st))" and f: "distinct (map filename (images st))"
    using assms(1) by (simp_all add: store_ok_def)
  have d': "distinct (map img_id (filter (\<lambda>r. \<not> is_expired now r) (images st)))"
    using d by (simp add: distinct_map_filter)
  have "r \<in> set (images st) \<Longrightarrow> filename r = filename row \<Longrightarrow> r = row" for r
    using f assms(2) by (auto simp: distinct_map inj_on_def)
  then have "\<not> (\<exists>r \<in> set (images st). is_expired now r \<and> filename r = filename row)"
    using assms(3) by auto
  then have "files (cleanup_expired_images now st) (filename row) = files st (filename row)"
    by (auto simp: cleanup_files)
  then show ?thesis
    using assms(2,3)
    by (simp add: untouched_def cleanup_images[OF d] select_image_Some[OF d'])
qed

lemma delete_row_and_file_removed:
  "removed row (delete_row_and_file (img_id row) row st)"
  by (auto simp: removed_def delete_row_and_file_def delete_image_def select_image_None
      remove_file_def)

text \<open>
  C2. The claim has a delete request on an expired record delete the record and its file
  and report success, whatever the token, and the handler has a branch that does so. The
  sweep that opens the handler runs first: it removes a record that has expired when the
  request arrives, the lookup then finds nothing, and the answer is the 404
  \<open>Not found\<close>, also with the record's own token. Here the record \<open>ab12\<close> expires at
  100, both clock reads give 200 and the request carries the token of the record.
\<close>

theorem delete_expired_not_found:
  "select_image (images (example_store (Some 100))) (T ''ab12'') = Some (example_row (Some 100))
   \<and> is_expired 200 (example_row (Some 100))
   \<and> supplies_token (form_request (Some (T ''s3cret''))) (JStr (delete_token (example_row (Some 100))))
   \<and> fst (api_delete_image 200 200 (form_request (Some (T ''s3cret''))) (T ''ab12'')
           (example_store (Some 100))) = Json_error 404 ''Not found''
   \<and> fst (api_delete_image 200 200 (form_request (Some (T ''s3cret''))) (T ''ab12'')
           (example_store (Some 100))) \<noteq> Json_ok"
  by code_simp

lemma delete_image_cases:
  assumes "store_ok st" and "supplies_token req tok"
  shows "case select_image (images st) i of
           None \<Rightarrow> fst (api_delete_image ts tc req i st) = Json_error 404 ''Not found''
         | Some row \<Rightarrow>
             (let (resp, st') = api_delete_image ts tc req i st in
              if is_expired ts row then resp = Json_error 404 ''Not found'' \<and> removed row st'
              else if is_expired tc row then resp = Json_ok \<and> removed row st'
              else if tok \<noteq> JStr (delete_token row)
                then resp = Json_error 403 ''Invalid delete_token'' \<and> untouched row st st'
              else resp = Json_ok \<and> removed row st')"
proof (cases "select_image (images st) i")
  case None
  have d: "distinct (map img_id (images st))" using assms(1) by (simp add: store_ok_def)
  from None have "select_image (images (cleanup_expired_images ts st)) i = None"
    by (auto simp: select_image_None cleanup_images[OF d])
  with None assms(2) show ?thesis
    by (simp add: api_delete_image_def supplies_token_def Let_def)
next
  case (Some row)
  then have row: "img_id row = i" "row \<in> set (images st)"
    using select_image_id by blast+
  let ?st = "cleanup_expired_images ts st"
  show ?thesis
  proof (cases "is_expired ts row")
    case True
    from cleanup_expired_row[OF assms(1) row(2) True]
    have r: "removed row ?st" .
    then have "select_image (images ?st) i = None"
      by (simp add: removed_def row(1))
    with Some True r assms(2) show ?thesis
      by (simp add: api_delete_image_def supplies_token_def Let_def)
  next
    case False
    from cleanup_live_row[OF assms(1) row(2) False]
    have u: "untouched row st ?st" .
    then have sel: "select_image (images ?st) i = Some row"
      by (simp add: untouched_def row(1))
    show ?thesis
      using Some False sel u assms(2) delete_row_and_file_removed[of row ?st]
      by (simp add: api_delete_image_def supplies_token_def Let_def row(1))
  qed
qed

lemma no_token_read:
  "supplies_no_token req \<Longrightarrow> \<exists>tok. request_delete_token req = Inr tok \<and> \<not> json_truthy tok"
  by (cases "form_token req")
     (auto simp: supplies_no_token_def request_delete_token_def json_delete_token_def
       split: if_splits option.splits json.splits)

text \<open>
  C10, as stated, fails when the targeted record has expired: the sweep runs before the
  token is read, so the request without a token is answered with the 400 and the record
  and its file are removed all the same.
\<close>

theorem missing_token_counterexample:
  "supplies_no_token (form_request None)
   \<and> select_image (images (example_store (Some 100))) (T ''ab12'') = Some (example_row (Some 100))
   \<and> files (example_store (Some 100)) (T ''ab12.png'') = Some [1, 2, 3]
   \<and> fst (api_delete_image 200 200 (form_request None) (T ''ab12'') (example_store (Some 100)))
       = Json_error 400 ''Missing delete_token''
   \<and> select_image (images (snd (api_delete_image 200 200 (form_request None) (T ''ab12'')
         (example_store (Some 100))))) (T ''ab12'') = None
   \<and> files (snd (api_delete_image 200 200 (form_request None) (T ''ab12'')
         (example_store (Some 100)))) (T ''ab12.png'') = None"
  by code_simp

text \<open>
  C10, amended. A delete request with no \<open>delete_token\<close> in the form (absent or empty)
  and, when it is a JSON request, with a body that is absent, unparsable, empty
  (\<open>null\<close>, \<open>false\<close>, \<open>0\<close>, the empty string, array or object) or an object without a
  non-empty \<open>delete_token\<close>, is answered with the 400 \<open>Missing delete_token\<close> before the
  record is looked up, and the state it leaves is the state the expiry sweep at the start
  of the request leaves: every record that has expired, the targeted one too, is removed
  with its file, and every other record and its file stay as they were. The handler's own
  deletion, the one that expiry authorises included, is not reached. JSON bodies that are
  a non-empty value other than an object are outside this statement.
\<close>

theorem delete_without_token:
  assumes "store_ok st" and "supplies_no_token req"
  shows "api_delete_image ts tc req i st
           = (Json_error 400 ''Missing delete_token'', cleanup_expired_images ts st)
       \<and> (\<forall>row \<in> set (images st).
             if is_expired ts row then removed row (cleanup_expired_images ts st)
             else untouched row st (cleanup_expired_images ts st))"
proof -
  from no_token_read[OF assms(2)] obtain tok
    where "request_delete_token req = Inr tok" "\<not> json_truthy tok" by blast
  then have "api_delete_image ts tc req i st
      = (Json_error 400 ''Missing delete_token'', cleanup_expired_images ts st)"
    by (simp add: api_delete_image_def Let_def)
  then show ?thesis
    using cleanup_expired_row[OF assms(1)] cleanup_live_row[OF assms(1)] by auto
qed

theorem delete_without_token_witness:
  "api_delete_image 200 200 \<lparr>form_token = Some [], is_json = True,
        json_body = Some (JObj [(T ''delete_token'', JStr [])])\<rparr> (T ''cd34'') (example_store (Some 100))
     = (Json_error 400 ''Missing delete_token'', cleanup_expired_images 200 (example_store (Some 100)))
   \<and> removed (example_row (Some 100)) (cleanup_expired_images 200 (example_store (Some 100)))
   \<and> untouched example_grid_row (example_store (Some 100))
        (cleanup_expired_images 200 (example_store (Some 100)))"
proof -
  have ok: "store_ok (example_store (Some 100))"
    by code_simp
  have no: "supplies_no_token \<lparr>form_token = Some [], is_json = True,
        json_body = Some (JObj [(T ''delete_token'', JStr [])])\<rparr>"
    by code_simp
  have e: "is_expired 200 (example_row (Some 100))" "\<not> is_expired 200 example_grid_row"
    by code_simp+
  have rows: "images (example_store (Some 100)) = [example_row (Some 100), example_grid_row]"
    by (simp add: example_store_def)
  show ?thesis
    using delete_without_token[OF ok no, where i = "T ''cd34''" and ts = 200 and tc = 200]
    by (simp add: rows e)
qed

section \<open>Rounding to binary64\<close>

lemma pow2_powi: "pow2 k = 2 powi k"
  by (simp add: pow2_def power_int_def power_one_over)

lemma pow2_pos [simp]: "0 < pow2 k"
  by (simp add: pow2_powi)

lemma pow2_nonneg [simp]: "0 \<le> pow2 k"
  by (rule less_imp_le) simp

lemma pow2_add: "pow2 (a + b) = pow2 a * pow2 b"
  by (simp add: pow2_powi power_int_add)

lemma pow2_mono: "a \<le> b \<Longrightarrow> pow2 a \<le> pow2 b"
  by (simp add: pow2_powi power_int_increasing)

lemma pow2_strict_mono: "a < b \<Longrightarrow> pow2 a < pow2 b"
  by (simp add: pow2_powi power_int_strict_increasing)

lemma pow2_le_iff [simp]: "pow2 a \<le> pow2 b \<longleftrightarrow> a \<le> b"
  using pow2_mono[of a b] pow2_strict_mono[of b a] by (auto simp: not_le[symmetric])

lemma pow2_less_iff [simp]: "pow2 a < pow2 b \<longleftrightarrow> a < b"
  using pow2_mono[of b a] pow2_strict_mono[of a b] by (auto simp: not_less[symmetric])

lemma pow2_of_int: "0 \<le> k \<Longrightarrow> pow2 k = of_int (2 ^ nat k)"
  by (simp add: pow2_def)

lemma pow2_nat: "pow2 (int n) = 2 ^ n"
  by (simp add: pow2_def)

lemma pow2_0 [simp]: "pow2 0 = 1"
  by (simp add: pow2_def)

lemma pow2_diff: "pow2 (a - b) = pow2 a / pow2 b"
  by (simp add: pow2_powi power_int_diff)

lemma binade_bounds:
  assumes "0 < x"
  shows "pow2 (binade x) \<le> x \<and> x < pow2 (binade x + 1)"
proof -
  obtain p q where pq: "quotient_of x = (p, q)" by (cases "quotient_of x")
  have q: "0 < q" using quotient_of_denom_pos[OF pq] .
  have x: "x = of_int p / of_int q" using quotient_of_div[OF pq] .
  have p: "0 < p" using assms q unfolding x by (simp add: zero_less_divide_iff)
  define bp where "bp = bitlen p"
  define bq where "bq = bitlen q"
  have bp1: "1 \<le> bp" and bq1: "1 \<le> bq"
    using p q by (auto simp: bp_def bq_def bitlen_alt_def)
  from bitlen_bounds[OF p] have "2 ^ nat (bp - 1) \<le> p" "p < 2 ^ nat bp"
    by (auto simp: bp_def)
  then have P: "pow2 (bp - 1) \<le> of_int p" "of_int p < pow2 bp"
    using bp1 by (simp_all add: pow2_of_int del: of_int_power)
  from bitlen_bounds[OF q] have "2 ^ nat (bq - 1) \<le> q" "q < 2 ^ nat bq"
    by (auto simp: bq_def)
  then have Q: "pow2 (bq - 1) \<le> of_int q" "of_int q < pow2 bq"
    using bq1 by (simp_all add: pow2_of_int del: of_int_power)
  have qpos: "(0::rat) < of_int q" using q by simp
  have lo: "pow2 (bp - bq - 1) < x"
  proof -
    have "pow2 (bp - bq - 1) * of_int q < pow2 (bp - bq - 1) * pow2 bq"
      using Q(2) by simp
    also have "\<dots> = pow2 (bp - 1)" by (simp flip: pow2_add)
    also have "\<dots> \<le> of_int p" by (rule P(1))
    finally show ?thesis unfolding x using qpos by (simp add: pos_less_divide_eq)
  qed
  have hi: "x < pow2 (bp - bq + 1)"
  proof -
    have "of_int p < pow2 bp" by (rule P(2))
    also have "\<dots> = pow2 (bp - bq + 1) * pow2 (bq - 1)" by (simp flip: pow2_add)
    also have "\<dots> \<le> pow2 (bp - bq + 1) * of_int q"
      using Q(1) by simp
    finally show ?thesis unfolding x using qpos by (simp add: pos_divide_less_eq)
  qed
  have b: "binade x = (if pow2 (bp - bq) \<le> x then bp - bq else bp - bq - 1)"
    by (simp add: binade_def Let_def pq bp_def bq_def)
  show ?thesis
    using lo hi by (auto simp: b not_le less_imp_le)
qed

lemma binade_unique:
  assumes "pow2 e \<le> x" and "x < pow2 (e + 1)"
  shows "binade x = e"
proof -
  have "0 < x" using assms(1) pow2_pos[of e] by linarith
  from binade_bounds[OF this] have b: "pow2 (binade x) \<le> x" "x < pow2 (binade x + 1)"
    by simp_all
  have "pow2 (binade x) < pow2 (e + 1)" using b(1) assms(2) by linarith
  moreover have "pow2 e < pow2 (binade x + 1)" using b(2) assms(1) by linarith
  ultimately show ?thesis by simp
qed


lemma round_half_even_le: "y \<le> of_int n \<Longrightarrow> round_half_even y \<le> n"
  unfolding round_half_even_def Let_def by (auto simp: floor_le_iff) (linarith+)?

lemma round_half_even_ge: "of_int n \<le> y \<Longrightarrow> n \<le> round_half_even y"
  unfolding round_half_even_def Let_def by (auto simp: le_floor_iff) (linarith+)?

lemma round_half_even_near:
  "of_int n - 1 / 2 < y \<Longrightarrow> y < of_int n + 1 / 2 \<Longrightarrow> round_half_even y = n"
  unfolding round_half_even_def Let_def by (auto simp: floor_unique) (linarith+)?

lemma round_half_even_below: "y < of_int n + 1 / 2 \<Longrightarrow> round_half_even y \<le> n"
  unfolding round_half_even_def Let_def by auto (linarith+)?


lemma rnd_pos: "0 < x \<Longrightarrow> rnd x = of_int (round_half_even (x / pow2 (ulp_exp x))) * pow2 (ulp_exp x)"
  by (simp add: rnd_def ulp_exp_def Let_def)

lemma rnd_neg: "rnd (- x) = - rnd x"
  by (simp add: rnd_def Let_def sgn_minus)

lemma rnd_0 [simp]: "rnd 0 = 0"
  by (simp add: rnd_def)

lemma rnd_nonneg: "0 \<le> x \<Longrightarrow> 0 \<le> rnd x"
proof (cases "x = 0")
  case False
  assume "0 \<le> x"
  with False have x: "0 < x" by simp
  have "0 \<le> x / pow2 (ulp_exp x)" using x by (simp add: zero_le_divide_iff less_imp_le)
  then have "0 \<le> round_half_even (x / pow2 (ulp_exp x))"
    using round_half_even_ge[of 0] by simp
  then show ?thesis by (simp add: rnd_pos[OF x])
qed simp

lemma rnd_le:
  assumes "0 < x" and "x \<le> of_int m * pow2 k" and "m < 2 ^ 53" and "- 1074 \<le> k"
  shows "rnd x \<le> of_int m * pow2 k"
proof -
  define q where "q = ulp_exp x"
  have m: "0 < m"
  proof (rule ccontr)
    assume "\<not> 0 < m"
    then have "of_int m * pow2 k \<le> 0" by (simp add: mult_le_0_iff less_imp_le)
    with assms(1,2) show False by linarith
  qed
  from binade_bounds[OF assms(1)] have "pow2 (binade x) \<le> x" by simp
  also note assms(2)
  also have "of_int m * pow2 k < 2 ^ 53 * pow2 k"
    using assms(3) by (simp add: of_int_less_numeral_power_cancel_iff)
  also have "\<dots> = pow2 (53 + k)" by (simp add: pow2_add pow2_nat[of 53, simplified])
  finally have "binade x < 53 + k" by simp
  then have qk: "q \<le> k" using assms(4) by (simp add: q_def ulp_exp_def)
  have r: "of_int m * pow2 k = of_int (m * 2 ^ nat (k - q)) * pow2 q"
  proof -
    have "pow2 k = pow2 (k - q) * pow2 q" by (simp flip: pow2_add)
    then show ?thesis using qk by (simp add: pow2_of_int)
  qed
  have "x / pow2 q \<le> of_int (m * 2 ^ nat (k - q))"
    using assms(2) unfolding r by (simp add: pos_divide_le_eq)
  then have "round_half_even (x / pow2 q) \<le> m * 2 ^ nat (k - q)"
    by (rule round_half_even_le)
  then have "of_int (round_half_even (x / pow2 q)) * pow2 q \<le> of_int (m * 2 ^ nat (k - q)) * pow2 q"
    by (simp del: of_int_mult of_int_power)
  then show ?thesis unfolding r rnd_pos[OF assms(1)] q_def .
qed

lemma rnd_ge:
  assumes "0 < m" and "of_int m * pow2 k \<le> x" and "m < 2 ^ 53" and "- 1074 \<le> k"
  shows "of_int m * pow2 k \<le> rnd x"
proof -
  define q where "q = ulp_exp x"
  have x: "0 < x"
  proof -
    have "0 < of_int m * pow2 k" using assms(1) by simp
    with assms(2) show ?thesis by linarith
  qed
  show ?thesis
  proof (cases "q \<le> k")
    case True
    have r: "of_int m * pow2 k = of_int (m * 2 ^ nat (k - q)) * pow2 q"
    proof -
      have "pow2 k = pow2 (k - q) * pow2 q" by (simp flip: pow2_add)
      then show ?thesis using True by (simp add: pow2_of_int)
    qed
    have "of_int (m * 2 ^ nat (k - q)) \<le> x / pow2 q"
      using assms(2) unfolding r by (simp add: pos_le_divide_eq)
    then have "m * 2 ^ nat (k - q) \<le> round_half_even (x / pow2 q)"
      by (rule round_half_even_ge)
    then have "of_int (m * 2 ^ nat (k - q)) * pow2 q \<le> of_int (round_half_even (x / pow2 q)) * pow2 q"
      by (simp del: of_int_mult of_int_power)
    then show ?thesis unfolding r rnd_pos[OF x] q_def .
  next
    case False
    then have kq: "k < q" by simp
    with assms(4) have qe: "q = binade x - 52" by (simp add: q_def ulp_exp_def)
    have "of_int m * pow2 k < 2 ^ 53 * pow2 k"
      using assms(3) by (simp add: of_int_less_numeral_power_cancel_iff)
    also have "\<dots> = pow2 (53 + k)" by (simp add: pow2_add pow2_nat[of 53, simplified])
    also have "\<dots> \<le> pow2 (binade x)" using kq qe by simp
    finally have lt: "of_int m * pow2 k < pow2 (binade x)" .
    have "pow2 (binade x) \<le> x" using binade_bounds[OF x] by simp
    then have "pow2 (binade x) / pow2 q \<le> x / pow2 q"
      by (simp add: divide_right_mono)
    moreover have "pow2 (binade x) / pow2 q = of_int (2 ^ 52)"
      by (simp add: qe pow2_nat[of 52, simplified] flip: pow2_diff)
    ultimately have "of_int (2 ^ 52) \<le> x / pow2 q" by simp
    then have "2 ^ 52 \<le> round_half_even (x / pow2 q)"
      by (rule round_half_even_ge)
    then have "(of_int (2 ^ 52) :: rat) \<le> of_int (round_half_even (x / pow2 q))"
      by (simp only: of_int_le_iff)
    then have A: "of_int (2 ^ 52) * pow2 q \<le> of_int (round_half_even (x / pow2 q)) * pow2 q"
      by (rule mult_right_mono) simp
    have B: "of_int (2 ^ 52) * pow2 q = pow2 (binade x)"
    proof -
      have "pow2 (binade x) = pow2 52 * pow2 q" by (simp add: qe flip: pow2_add)
      then show ?thesis by (simp add: pow2_def)
    qed
    have "pow2 (binade x) \<le> of_int (round_half_even (x / pow2 q)) * pow2 q"
      using A unfolding B .
    then have "pow2 (binade x) \<le> rnd x"
      unfolding rnd_pos[OF x] q_def .
    with lt show ?thesis by linarith
  qed
qed

text \<open>A binary64 number is its own rounding: \<open>m * 2^k\<close> with \<open>|m| < 2^53\<close> and \<open>k \<ge> -1074\<close>.\<close>

lemma rnd_exact:
  assumes "\<bar>m\<bar> < 2 ^ 53" and "- 1074 \<le> k"
  shows "rnd (of_int m * pow2 k) = of_int m * pow2 k"
proof -
  have pos: "rnd (of_int n * pow2 k) = of_int n * pow2 k" if "0 < n" "n < 2 ^ 53" for n
  proof -
    have "0 < of_int n * pow2 k" using that(1) by simp
    from rnd_le[OF this _ that(2) assms(2)] rnd_ge[OF that(1) _ that(2) assms(2)]
    show ?thesis by (simp add: antisym)
  qed
  consider "0 < m" | "m = 0" | "m < 0" by linarith
  then show ?thesis
  proof cases
    case 1
    then show ?thesis using pos[of m] assms(1) by simp
  next
    case 2
    then show ?thesis by simp
  next
    case 3
    then have "rnd (of_int (- m) * pow2 k) = of_int (- m) * pow2 k"
      using pos[of "- m"] assms(1) by simp
    then show ?thesis using rnd_neg[of "of_int m * pow2 k"] by simp
  qed
qed

lemma rnd_int: "\<bar>n\<bar> < 2 ^ 53 \<Longrightarrow> rnd (of_int n) = of_int n"
  using rnd_exact[of n 0] by simp


section \<open>The card of a square image\<close>

lemma rnd_eval:
  assumes "pow2 e \<le> x" and "x < pow2 (e + 1)" and "- 1022 \<le> e"
    and "of_int n - 1 / 2 < x / pow2 (e - 52)" and "x / pow2 (e - 52) < of_int n + 1 / 2"
  shows "rnd x = of_int n * pow2 (e - 52)"
proof -
  have x: "0 < x" using assms(1) pow2_pos[of e] by linarith
  have "ulp_exp x = e - 52"
    using binade_unique[OF assms(1,2)] assms(3) by (simp add: ulp_exp_def)
  then show ?thesis
    using round_half_even_near[OF assms(4,5)] by (simp add: rnd_pos[OF x])
qed

lemma float_of_int_exact: "\<bar>n\<bar> < 2 ^ 53 \<Longrightarrow> float_of_int n = Inr (of_int n)"
proof -
  assume n: "\<bar>n\<bar> < 2 ^ 53"
  then have "\<bar>n\<bar> < 2 ^ 1024" by simp
  then have "\<bar>of_int n :: rat\<bar> < 2 ^ 1024"
    by (metis of_int_abs of_int_less_numeral_power_cancel_iff)
  then show ?thesis using n by (simp add: float_of_int_def to_float_def rnd_int Let_def)
qed

lemma ratio_628_400: "int_truediv 628 400 = Inr (7070651414971679 / 4503599627370496)"
proof -
  have "rnd (157 / 100) = of_int 7070651414971679 * pow2 (0 - 52)"
    by (rule rnd_eval) (simp_all add: pow2_def)
  then show ?thesis by (simp add: int_truediv_def to_float_def Let_def pow2_def)
qed

lemma padded_width_400: "padded_width 400 400 = Inr 628"
proof -
  have "rnd (400 * (7070651414971679 / 4503599627370496)) = of_int 5523946417946624 * pow2 (9 - 52)"
    by (rule rnd_eval) (simp_all add: pow2_def)
  then have "float_mul 400 (7070651414971679 / 4503599627370496) = Inr 628"
    by (simp add: float_mul_def to_float_def Let_def pow2_def)
  then show ?thesis
    using float_of_int_exact[of 400]
    by (simp add: padded_width_def target_h_def ratio_628_400 int_of_float_def)
qed

lemma ratio_400_400: "int_truediv 400 400 = Inr 1"
  using rnd_int[of 1] by (simp add: int_truediv_def to_float_def Let_def)

text \<open>
  C6. A source of 400 by 400, resized without error: the card is 1200 by 628; its columns
  286 to 913 hold the source resized to 628 by 628, pasted at the top; the 286 columns on
  the left and the 286 columns on the right are black.
\<close>

theorem square_card:
  assumes "width img = 400" and "height img = 400"
    and "resample P img (628, 628) = Inr px"
  shows "\<exists>out. normalize_card P img offset_y = Inr out
           \<and> width out = 1200 \<and> height out = 628
           \<and> (\<forall>x y. 0 \<le> x \<and> x < 1200 \<and> 0 \<le> y \<and> y < 628 \<longrightarrow>
                 pixel out x y = (if 286 \<le> x \<and> x < 286 + 628 then px (x - 286) y else (0, 0, 0)))
           \<and> 286 + 628 + 286 = (1200 :: int)"
  using assms
  by (auto simp: normalize_card_def Let_def ratio_400_400 padded_width_400 resize_def
      target_h_def target_w_def paste_def image_new_def)

theorem square_card_witness:
  "\<exists>out. normalize_card example_pil (grey_image 400 400 90) None = Inr out
      \<and> width out = 1200 \<and> height out = 628
      \<and> pixel out 0 0 = (0, 0, 0) \<and> pixel out 285 627 = (0, 0, 0)
      \<and> pixel out 286 0 = (90, 90, 90) \<and> pixel out 913 627 = (90, 90, 90)
      \<and> pixel out 914 0 = (0, 0, 0) \<and> pixel out 1199 627 = (0, 0, 0)"
proof -
  have r: "resample example_pil (grey_image 400 400 90) (628, 628) = Inr (\<lambda>x y. (90, 90, 90))"
    by (simp add: example_pil_def grey_image_def)
  have s: "width (grey_image 400 400 90) = 400" "height (grey_image 400 400 90) = 400"
    by (simp_all add: grey_image_def)
  from square_card[OF s r, of None] obtain out
    where o: "normalize_card example_pil (grey_image 400 400 90) None = Inr out"
      "width out = 1200" "height out = 628"
      "\<forall>x y. 0 \<le> x \<and> x < 1200 \<and> 0 \<le> y \<and> y < 628 \<longrightarrow>
         pixel out x y = (if 286 \<le> x \<and> x < 286 + 628 then (90, 90, 90) else (0, 0, 0))"
    by blast
  from o(4) have "pixel out 0 0 = (0, 0, 0)" "pixel out 285 627 = (0, 0, 0)"
    "pixel out 286 0 = (90, 90, 90)" "pixel out 913 627 = (90, 90, 90)"
    "pixel out 914 0 = (0, 0, 0)" "pixel out 1199 627 = (0, 0, 0)"
    by simp_all
  with o(1,2,3) show ?thesis by blast
qed

section \<open>The grid of five images\<close>

text \<open>
  C7. Five images, each resized without error to the cell of 400 by 314 (1200 div 3 by
  628 div 2): the images 0, 1, 2 are in row 0 at the columns 0, 1, 2, the images 3, 4 in
  row 1 at the columns 1, 2, each with its corner on its cell's corner; on the canvas the
  cell of row 1 and column 0 is white. Without overlay text the canvas is the result.
\<close>

theorem grid_of_five:
  assumes "resample P i0 (400, 314) = Inr p0" and "resample P i1 (400, 314) = Inr p1"
    and "resample P i2 (400, 314) = Inr p2" and "resample P i3 (400, 314) = Inr p3"
    and "resample P i4 (400, 314) = Inr p4"
  shows "map (grid_cell 5 3) [0, 1, 2, 3, 4] = [(0, 0), (1, 0), (2, 0), (1, 1), (2, 1)]
       \<and> (1200 div 3, 628 div 2) = (400 :: int, 314 :: int)
       \<and> (\<exists>canvas. grid_canvas P [i0, i1, i2, i3, i4] (1200, 628) = Inr canvas
            \<and> create_grid_image (Some P) [i0, i1, i2, i3, i4] None (1200, 628) = Inr canvas
            \<and> width canvas = 1200 \<and> height canvas = 628
            \<and> (\<forall>x y. 0 \<le> x \<and> x < 1200 \<and> 0 \<le> y \<and> y < 628 \<longrightarrow>
                  pixel canvas x y =
                    (if y < 314
                     then (if x < 400 then p0 x y
                           else if x < 800 then p1 (x - 400) y
                           else p2 (x - 800) y)
                     else (if x < 400 then (255, 255, 255)
                           else if x < 800 then p3 (x - 400) (y - 314)
                           else p4 (x - 800) (y - 314)))))"
proof -
  have cells: "map (grid_cell 5 3) [0, 1, 2, 3, 4] = [(0, 0), (1, 0), (2, 0), (1, 1), (2, 1)]"
    by (simp add: grid_cell_def)
  have c: "grid_cell 5 3 0 = (0, 0)" "grid_cell 5 3 (Suc 0) = (1, 0)"
    "grid_cell 5 3 (Suc (Suc 0)) = (2, 0)" "grid_cell 5 3 (Suc (Suc (Suc 0))) = (1, 1)"
    "grid_cell 5 3 (Suc (Suc (Suc (Suc 0)))) = (2, 1)"
    by (simp_all add: grid_cell_def)
  define canvas where "canvas =
    paste (paste (paste (paste (paste (image_new (1200, 628) (255, 255, 255))
      \<lparr>width = 400, height = 314, mode = mode i0, pixel = p0\<rparr> (0, 0))
      \<lparr>width = 400, height = 314, mode = mode i1, pixel = p1\<rparr> (400, 0))
      \<lparr>width = 400, height = 314, mode = mode i2, pixel = p2\<rparr> (800, 0))
      \<lparr>width = 400, height = 314, mode = mode i3, pixel = p3\<rparr> (400, 314))
      \<lparr>width = 400, height = 314, mode = mode i4, pixel = p4\<rparr> (800, 314)"
  have n5: "Suc (Suc (Suc (Suc (Suc 0)))) = 5"
    by simp
  have g: "grid_canvas P [i0, i1, i2, i3, i4] (1200, 628) = Inr canvas"
    using assms by (simp add: grid_canvas_def grid_layout_def Let_def resize_def n5 c canvas_def)
  then have cg: "create_grid_image (Some P) [i0, i1, i2, i3, i4] None (1200, 628) = Inr canvas"
    by (simp add: create_grid_image_def)
  have sz: "width canvas = 1200" "height canvas = 628"
    by (simp_all add: canvas_def paste_def image_new_def)
  have px: "pixel canvas x y =
                    (if y < 314
                     then (if x < 400 then p0 x y
                           else if x < 800 then p1 (x - 400) y
                           else p2 (x - 800) y)
                     else (if x < 400 then (255, 255, 255)
                           else if x < 800 then p3 (x - 400) (y - 314)
                           else p4 (x - 800) (y - 314)))"
    if "0 \<le> x \<and> x < 1200 \<and> 0 \<le> y \<and> y < 628" for x y
    using that by (simp add: canvas_def paste_def image_new_def)
  from px have pxa: "\<forall>x y. 0 \<le> x \<and> x < 1200 \<and> 0 \<le> y \<and> y < 628 \<longrightarrow>
                  pixel canvas x y =
                    (if y < 314
                     then (if x < 400 then p0 x y
                           else if x < 800 then p1 (x - 400) y
                           else p2 (x - 800) y)
                     else (if x < 400 then (255, 255, 255)
                           else if x < 800 then p3 (x - 400) (y - 314)
                           else p4 (x - 800) (y - 314)))"
    by blast
  have "\<exists>c. grid_canvas P [i0, i1, i2, i3, i4] (1200, 628) = Inr c
            \<and> create_grid_image (Some P) [i0, i1, i2, i3, i4] None (1200, 628) = Inr c
            \<and> width c = 1200 \<and> height c = 628
            \<and> (\<forall>x y. 0 \<le> x \<and> x < 1200 \<and> 0 \<le> y \<and> y < 628 \<longrightarrow>
                  pixel c x y =
                    (if y < 314
                     then (if x < 400 then p0 x y
                           else if x < 800 then p1 (x - 400) y
                           else p2 (x - 800) y)
                     else (if x < 400 then (255, 255, 255)
                           else if x < 800 then p3 (x - 400) (y - 314)
                           else p4 (x - 800) (y - 314))))"
    using g cg sz pxa by blast
  moreover have "(1200 div 3, 628 div 2) = (400 :: int, 314 :: int)"
    by simp
  ultimately show ?thesis
    using cells by blast
qed

theorem grid_of_five_witness:
  "\<exists>canvas. create_grid_image (Some example_pil)
        [grey_image 10 10 10, grey_image 20 10 20, grey_image 10 30 30, grey_image 40 40 40,
         grey_image 50 10 50] None (1200, 628) = Inr canvas
     \<and> pixel canvas 0 0 = (10, 10, 10) \<and> pixel canvas 400 0 = (20, 20, 20)
     \<and> pixel canvas 800 313 = (30, 30, 30) \<and> pixel canvas 0 314 = (255, 255, 255)
     \<and> pixel canvas 399 627 = (255, 255, 255) \<and> pixel canvas 400 314 = (40, 40, 40)
     \<and> pixel canvas 1199 627 = (50, 50, 50)"
proof -
  have r: "resample example_pil (grey_image w h v) (400, 314) = Inr (\<lambda>x y. (v, v, v))" for w h v
    by (simp add: example_pil_def grey_image_def)
  from grid_of_five[OF r r r r r, of 10 10 10 20 10 20 10 30 30 40 40 40 50 10 50]
  obtain canvas where c: "create_grid_image (Some example_pil)
        [grey_image 10 10 10, grey_image 20 10 20, grey_image 10 30 30, grey_image 40 40 40,
         grey_image 50 10 50] None (1200, 628) = Inr canvas"
    "\<forall>x y. 0 \<le> x \<and> x < 1200 \<and> 0 \<le> y \<and> y < 628 \<longrightarrow>
                  pixel canvas x y =
                    (if y < 314
                     then (if x < 400 then (10, 10, 10)
                           else if x < 800 then (20, 20, 20)
                           else (30, 30, 30))
                     else (if x < 400 then (255, 255, 255)
                           else if x < 800 then (40, 40, 40)
                           else (50, 50, 50)))"
    by blast
  from c(2) have "pixel canvas 0 0 = (10, 10, 10)" "pixel canvas 400 0 = (20, 20, 20)"
    "pixel canvas 800 313 = (30, 30, 30)" "pixel canvas 0 314 = (255, 255, 255)"
    "pixel canvas 399 627 = (255, 255, 255)" "pixel canvas 400 314 = (40, 40, 40)"
    "pixel canvas 1199 627 = (50, 50, 50)"
    by simp_all
  with c(1) show ?thesis by blast
qed

section \<open>Which records can expire\<close>

lemma grid_new_row:
  "r \<in> set (images (snd (api_create_grid E ts tc i tok req st))) \<Longrightarrow>
   r \<in> set (images (cleanup_expired_images ts st)) \<or> (img_id r = i \<and> expires_at r = None)"
  by (auto simp: api_create_grid_def Let_def insert_image_def
      split: load_result.splits sum.splits option.splits if_splits prod.splits)

lemma upload_new_row:
  "r \<in> set (images (snd (api_upload E ts te tc i tok req st))) \<Longrightarrow>
   r \<in> set (images (cleanup_expired_images ts st))
   \<or> (img_id r = i \<and> expires_at r = requested_expiry E te req)"
  by (auto simp: api_upload_def Let_def insert_image_def requested_expiry_def
      split: sum.splits option.splits if_splits prod.splits error.splits)

lemma never_expired: "expires_at r = None \<Longrightarrow> \<not> is_expired now r"
  by (simp add: is_expired_def)

text \<open>
  C9. A record created by the grid handler has no expiry: no sweep selects it or removes
  it or its file, and a delete request with another token than its own is refused at any
  time, so the deletion that expiry authorises is never taken for it. A record created by
  the upload handler carries the expiry the upload asked for, which is finite when
  \<open>expiry_minutes\<close> is an integer above zero.
\<close>

theorem grid_rows_never_expire:
  "(created_by_grid E ts tc i tok req st r \<longrightarrow>
        expires_at r = None
      \<and> (\<forall>now. \<not> is_expired now r)
      \<and> (\<forall>now s. store_ok s \<and> r \<in> set (images s) \<longrightarrow>
            untouched r s (cleanup_expired_images now s))
      \<and> (\<forall>t1 t2 dreq t s.
            store_ok s \<and> r \<in> set (images s) \<and> supplies_token dreq t \<and> t \<noteq> JStr (delete_token r) \<longrightarrow>
            (let (resp, s') = api_delete_image t1 t2 dreq (img_id r) s
             in resp = Json_error 403 ''Invalid delete_token'' \<and> untouched r s s')))
   \<and> (created_by_upload E' us ue uc j utok ureq ust u \<longrightarrow>
        expires_at u = requested_expiry E' ue ureq)"
proof (intro conjI impI)
  assume "created_by_upload E' us ue uc j utok ureq ust u"
  then show "expires_at u = requested_expiry E' ue ureq"
    using upload_new_row[of u E' us ue uc j utok ureq ust]
    by (auto simp: created_by_upload_def)
next
  assume g: "created_by_grid E ts tc i tok req st r"
  then have none: "expires_at r = None"
    using grid_new_row[of r E ts tc i tok req st] by (auto simp: created_by_grid_def)
  then show "expires_at r = None" .
  show "\<forall>now. \<not> is_expired now r"
    using none by (simp add: never_expired)
  show "\<forall>now s. store_ok s \<and> r \<in> set (images s) \<longrightarrow> untouched r s (cleanup_expired_images now s)"
    using none cleanup_live_row never_expired by blast
  show "\<forall>t1 t2 dreq t s.
            store_ok s \<and> r \<in> set (images s) \<and> supplies_token dreq t \<and> t \<noteq> JStr (delete_token r) \<longrightarrow>
            (let (resp, s') = api_delete_image t1 t2 dreq (img_id r) s
             in resp = Json_error 403 ''Invalid delete_token'' \<and> untouched r s s')"
  proof (intro allI impI)
    fix t1 t2 dreq t s
    assume a: "store_ok s \<and> r \<in> set (images s) \<and> supplies_token dreq t \<and> t \<noteq> JStr (delete_token r)"
    then have "distinct (map img_id (images s))" by (simp add: store_ok_def)
    with a have sel: "select_image (images s) (img_id r) = Some r"
      by (simp add: select_image_Some)
    from a have ok: "store_ok s" and tk: "supplies_token dreq t" by simp_all
    show "let (resp, s') = api_delete_image t1 t2 dreq (img_id r) s
             in resp = Json_error 403 ''Invalid delete_token'' \<and> untouched r s s'"
      using delete_image_cases[OF ok tk, where i = "img_id r" and ts = t1 and tc = t2] a
      by (simp add: sel never_expired[OF none])
  qed
qed

theorem grid_rows_never_expire_witness:
  "created_by_grid example_env 10 50 (T ''cd34'') (T ''t0ken'') example_grid_request empty_store
     example_grid_row
   \<and> expires_at example_grid_row = None
   \<and> untouched example_grid_row (example_store (Some 100))
       (cleanup_expired_images 1000000 (example_store (Some 100)))
   \<and> (let (resp, s') = api_delete_image 1000000 1000001 (form_request (Some (T ''guess'')))
                          (T ''cd34'') (example_store (Some 100))
      in resp = Json_error 403 ''Invalid delete_token''
         \<and> untouched example_grid_row (example_store (Some 100)) s')
   \<and> created_by_upload example_env 10 11 12 (T ''ab12'') (T ''s3cret'')
        example_upload_request empty_store
        ((example_row (Some 311))\<lparr>created_at := 12\<rparr>)
   \<and> expires_at ((example_row (Some 311))\<lparr>created_at := 12\<rparr>) = Some (11 + 5 * 60)"
proof -
  have g: "created_by_grid example_env 10 50 (T ''cd34'') (T ''t0ken'') example_grid_request
      empty_store example_grid_row"
    by code_simp
  have u: "created_by_upload example_env 10 11 12 (T ''ab12'') (T ''s3cret'')
      example_upload_request empty_store ((example_row (Some 311))\<lparr>created_at := 12\<rparr>)"
    by code_simp
  have q: "requested_expiry example_env 11 example_upload_request = Some (11 + 5 * 60)"
    by code_simp
  have ok: "store_ok (example_store (Some 100))"
    by code_simp
  have m: "example_grid_row \<in> set (images (example_store (Some 100)))"
    by (simp add: example_store_def)
  have tk: "supplies_token (form_request (Some (T ''guess''))) (JStr (T ''guess''))"
    by code_simp
  have ne: "JStr (T ''guess'') \<noteq> JStr (delete_token example_grid_row)"
    by (simp add: example_grid_row_def T_def)
  have i: "img_id example_grid_row = T ''cd34''"
    by (simp add: example_grid_row_def)
  from grid_rows_never_expire[of example_env 10 50 "T ''cd34''" "T ''t0ken''" example_grid_request
      empty_store example_grid_row example_env 10 11 12 "T ''ab12''" "T ''s3cret''"
      example_upload_request empty_store "(example_row (Some 311))\<lparr>created_at := 12\<rparr>"] g u
  have 1: "expires_at example_grid_row = None"
    and 2: "\<forall>now s. store_ok s \<and> example_grid_row \<in> set (images s) \<longrightarrow>
            untouched example_grid_row s (cleanup_expired_images now s)"
    and 3: "\<forall>t1 t2 dreq t s.
            store_ok s \<and> example_grid_row \<in> set (images s) \<and> supplies_token dreq t
              \<and> t \<noteq> JStr (delete_token example_grid_row) \<longrightarrow>
            (let (resp, s') = api_delete_image t1 t2 dreq (img_id example_grid_row) s
             in resp = Json_error 403 ''Invalid delete_token'' \<and> untouched example_grid_row s s')"
    and 4: "expires_at ((example_row (Some 311))\<lparr>created_at := 12\<rparr>)
              = requested_expiry example_env 11 example_upload_request"
    by blast+
  from 2 ok m have 5: "untouched example_grid_row (example_store (Some 100))
       (cleanup_expired_images 1000000 (example_store (Some 100)))"
    by blast
  from 3 ok m tk ne have 6: "let (resp, s') = api_delete_image 1000000 1000001
         (form_request (Some (T ''guess''))) (img_id example_grid_row) (example_store (Some 100))
      in resp = Json_error 403 ''Invalid delete_token''
         \<and> untouched example_grid_row (example_store (Some 100)) s'"
    by blast
  show ?thesis
    using g u 1 5 6 4 q by (simp add: i)
qed

section \<open>The landscape crop\<close>

lemma target_ratio_value: "target_ratio = 8601875288277647 / 4503599627370496"
proof -
  have "rnd (191 / 100) = of_int 8601875288277647 * pow2 (0 - 52)"
    by (rule rnd_eval) (simp_all add: pow2_def)
  then show ?thesis by (simp add: target_ratio_def pow2_def)
qed

lemma to_float_small: "\<bar>rnd x\<bar> < 2 ^ 1024 \<Longrightarrow> to_float x = Inr (rnd x)"
  by (simp add: to_float_def Let_def)

lemma crop_quotient:
  assumes "0 < w" and "w < 2 ^ 31"
  shows "float_div (of_int w) target_ratio = Inr (rnd (of_int w / target_ratio))
       \<and> int_of_float (rnd (of_int w / target_ratio)) = (100 * w) div 191"
proof -
  define N where "N = (100 * w) div 191"
  define x :: rat where "x = of_int w / target_ratio"
  have N0: "0 \<le> N" using assms by (simp add: N_def)
  have N31: "N < 2 ^ 31" using assms unfolding N_def by (simp add: zdiv_int div_less_iff_less_mult) 
  have lo: "191 * N \<le> 100 * w" unfolding N_def by (simp add: mult.commute[of 191])
  have hi: "100 * w \<le> 191 * N + 190"
    unfolding N_def using mod_mult_div_eq[of "100 * w" 191] pos_mod_bound[of 191 "100 * w"]
    by linarith
  have xv: "x = of_int w * 4503599627370496 / 8601875288277647"
    by (simp add: x_def target_ratio_value)
  have x0: "0 < x" using assms by (simp add: xv)
  have a: "of_int N \<le> x"
  proof -
    have "(of_int (191 * N) :: rat) \<le> of_int (100 * w)" using lo by (simp only: of_int_le_iff)
    then have "(191 * of_int N :: rat) \<le> 100 * of_int w" by simp
    moreover have "(0 :: rat) \<le> of_int w" using assms by simp
    ultimately show ?thesis unfolding xv by (simp add: field_simps)
  qed
  have b: "x \<le> of_int ((N + 1) * 2 ^ 20 - 1) * pow2 (- 20)"
  proof -
    have "(of_int (100 * w) :: rat) \<le> of_int (191 * N + 190)" using hi by (simp only: of_int_le_iff)
    then have h1: "(100 * of_int w :: rat) \<le> 191 * of_int N + 190" by simp
    have "(of_int N :: rat) < of_int (2 ^ 31)" using N31 by (simp only: of_int_less_iff)
    then have h2: "(of_int N :: rat) < 2147483648" by simp
    have h3: "(0 :: rat) \<le> of_int N" using N0 by simp
    show ?thesis unfolding xv using h1 h2 h3 by (simp add: pow2_def field_simps)
  qed
  have r1: "of_int N \<le> rnd x"
  proof (cases "N = 0")
    case True
    then show ?thesis using rnd_nonneg[of x] x0 by simp
  next
    case False
    then have "0 < N" using N0 by simp
    from rnd_ge[OF this, of 0 x] a N31 show ?thesis by simp
  qed
  have "(N + 1) * 2 ^ 20 - 1 < 2 ^ 53" using N31 by simp
  from rnd_le[OF x0 b this] have r2: "rnd x \<le> of_int ((N + 1) * 2 ^ 20 - 1) * pow2 (- 20)"
    by simp
  have r3: "rnd x < of_int N + 1"
  proof -
    have "of_int ((N + 1) * 2 ^ 20 - 1) * pow2 (- 20) < (of_int N + 1 :: rat)"
      by (simp add: pow2_def field_simps)
    with r2 show ?thesis by linarith
  qed
  have fl: "\<lfloor>rnd x\<rfloor> = N" using r1 r3 by (simp add: floor_unique)
  have "0 \<le> rnd x" using r1 N0 by (meson of_int_0_le_iff order_trans)
  then have i: "int_of_float (rnd x) = N" using fl by (simp add: int_of_float_def)
  have "(of_int N :: rat) + 1 \<le> 2 ^ 1024"
  proof -
    have "N + 1 \<le> 2 ^ 1024" using N31 by simp
    then have "(of_int (N + 1) :: rat) \<le> of_int (2 ^ 1024)" by (simp only: of_int_le_iff)
    then show ?thesis by simp
  qed
  with r3 \<open>0 \<le> rnd x\<close> have "\<bar>rnd x\<bar> < 2 ^ 1024" by linarith
  then have "to_float x = Inr (rnd x)" by (rule to_float_small)
  moreover have "target_ratio \<noteq> 0" by (simp add: target_ratio_value)
  ultimately show ?thesis using i by (simp add: float_div_def x_def N_def)
qed

lemma crop_height_exact:
  assumes "0 < w" and "w < 2 ^ 31"
  shows "crop_height w h = Inr (claimed_crop_height w h)"
proof -
  have f: "float_of_int w = Inr (of_int w)"
    using assms by (intro float_of_int_exact) simp
  have "\<lfloor>of_int w / (191 / 100 :: rat)\<rfloor> = (100 * w) div 191"
  proof -
    have "of_int w / (191 / 100 :: rat) = of_int (100 * w) / of_int 191" by simp
    then show ?thesis by (simp only: floor_divide_of_int_eq)
  qed
  then show ?thesis
    using crop_quotient[OF assms]
    by (auto simp: crop_height_def f claimed_crop_height_def Let_def min_def)
qed

lemma landscape_ratio:
  assumes "0 < h" and "h < w" and "w < 2 ^ 31"
  shows "\<exists>r. int_truediv w h = Inr r \<and> 1 < r"
proof -
  define x :: rat where "x = of_int w / of_int h"
  have h0: "(0 :: rat) < of_int h" using assms by simp
  have hw: "(of_int h :: rat) + 1 \<le> of_int w"
  proof -
    have "h + 1 \<le> w" using assms by simp
    then have "(of_int (h + 1) :: rat) \<le> of_int w" by (simp only: of_int_le_iff)
    then show ?thesis by simp
  qed
  have h31: "(of_int h :: rat) \<le> 2147483648"
  proof -
    have "h \<le> 2147483648" using assms by simp
    then have "(of_int h :: rat) \<le> of_int 2147483648" by (simp only: of_int_le_iff)
    then show ?thesis by simp
  qed
  have w31: "(of_int w :: rat) \<le> 2147483648"
  proof -
    have "w \<le> 2147483648" using assms by simp
    then have "(of_int w :: rat) \<le> of_int 2147483648" by (simp only: of_int_le_iff)
    then show ?thesis by simp
  qed
  have h1: "(1 :: rat) \<le> of_int h"
  proof -
    have "1 \<le> h" using assms by simp
    then have "(of_int 1 :: rat) \<le> of_int h" by (simp only: of_int_le_iff)
    then show ?thesis by simp
  qed
  have x0: "0 < x" using assms by (simp add: x_def)
  have a: "of_int (2 ^ 31 + 1) * pow2 (- 31) \<le> x"
  proof -
    have "1 + 1 / 2147483648 \<le> 1 + 1 / (of_int h :: rat)"
      using h0 h31 by (simp add: field_simps)
    also have "\<dots> = (of_int h + 1) / of_int h" using h0 by (simp add: field_simps)
    also have "\<dots> \<le> x" unfolding x_def using hw h0 by (simp add: divide_right_mono)
    finally show ?thesis by (simp add: pow2_def)
  qed
  have b: "x \<le> of_int (2 ^ 31) * pow2 0"
  proof -
    have "x \<le> of_int w / 1" unfolding x_def using h1 w31 assms
      by (intro divide_left_mono) simp_all
    then show ?thesis using w31 by simp
  qed
  from rnd_ge[OF _ a] have r1: "of_int (2 ^ 31 + 1) * pow2 (- 31) \<le> rnd x" by simp
  from rnd_le[OF x0 b] have r2: "rnd x \<le> of_int (2 ^ 31) * pow2 0" by simp
  have g: "1 < rnd x" using r1 by (simp add: pow2_def)
  have "\<bar>rnd x\<bar> < 2 ^ 1024" using r2 g by simp
  then have "to_float x = Inr (rnd x)" by (rule to_float_small)
  then show ?thesis using g assms by (simp add: int_truediv_def x_def)
qed




















lemma normalize_card_landscape:
  assumes "0 < height img" and "height img < width img" and "width img < 2 ^ 31"
  shows "normalize_card P img offset_y =
           resize P (crop img (0, crop_top (height img) (claimed_crop_height (width img) (height img)) offset_y,
                               width img,
                               crop_top (height img) (claimed_crop_height (width img) (height img)) offset_y
                                 + claimed_crop_height (width img) (height img)))
             (target_w, target_h)"
proof -
  from landscape_ratio[OF assms] obtain r
    where r: "int_truediv (width img) (height img) = Inr r" "1 < r" by blast
  have w: "0 < width img" using assms by simp
  show ?thesis
    using r assms(1) crop_height_exact[OF w assms(3), of "height img"]
    by (simp add: normalize_card_def Let_def)
qed




section \<open>Failures of the image transforms\<close>

text \<open>
  What holds of the two \<open>try\<close> blocks. The answer of an upload and the rows it leaves do
  not depend on the imaging library, so no failure of the normalisation fails the upload.
  A failure before the save leaves the uploaded file as it came. The overlay leaves the
  canvas as it was, or with the white rectangle, or with the rectangle and the text, and
  the grid is produced in each case.
\<close>

lemma upload_whatever_the_library:
  "fst (api_upload (E\<lparr>pillow := lib\<rparr>) ts te tc i tok req st)
     = fst (api_upload (E\<lparr>pillow := None\<rparr>) ts te tc i tok req st)
   \<and> images (snd (api_upload (E\<lparr>pillow := lib\<rparr>) ts te tc i tok req st))
     = images (snd (api_upload (E\<lparr>pillow := None\<rparr>) ts te tc i tok req st))"
  by (simp add: api_upload_def save_uploaded_image_for_image_host_def Let_def
      split: option.splits sum.splits if_splits error.splits prod.splits)

lemma normalization_failure_keeps_file:
  assumes "fs name = Some data"
    and "and_then (image_open P data) (\<lambda>img. normalize_card P img offset_y) = Inl e"
  shows "normalize_saved_file P name offset_y fs = fs"
  using assms by (simp add: normalize_saved_file_def)

lemma normalization_saves:
  assumes "fs name = Some data"
    and "and_then (image_open P data) (\<lambda>img. normalize_card P img offset_y) = Inr out"
  shows "normalize_saved_file P name offset_y fs
           = fs(name := snd (image_save P out name None (Some data)))"
  using assms by (simp add: normalize_saved_file_def)

lemma draw_overlay_cases:
  "draw_overlay P canvas t sz = canvas
   \<or> (\<exists>box c1. draw_rectangle P canvas box (255, 255, 255) = Inr c1
         \<and> (draw_overlay P canvas t sz = c1
            \<or> (\<exists>pos fnt. draw_text P c1 pos t fnt = Inr (draw_overlay P canvas t sz))))"
proof (cases "load_font P")
  case (Inl e)
  then show ?thesis by (simp add: draw_overlay_def)
next
  case (Inr fnt)
  show ?thesis
  proof (cases "textbbox P fnt t")
    case (Inl e)
    then show ?thesis using Inr by (simp add: draw_overlay_def)
  next
    case bb: (Inr b)
    obtain b0 b1 b2 b3 where b: "b = (b0, b1, b2, b3)" by (cases b)
    define box where "box = (fst sz - (b2 - b0) - 60, snd sz - (b3 - b1) - 60, fst sz - 20, snd sz - 20)"
    define pos where "pos = (fst sz - (b2 - b0) - 20 * 2, snd sz - (b3 - b1) - 20 * 2)"
    have eq: "draw_overlay P canvas t sz =
        (case draw_rectangle P canvas box (255, 255, 255) of
           Inl _ \<Rightarrow> canvas
         | Inr c1 \<Rightarrow> (case draw_text P c1 pos t fnt of Inl _ \<Rightarrow> c1 | Inr c2 \<Rightarrow> c2))"
      using Inr bb b unfolding box_def pos_def by (simp add: draw_overlay_def Let_def)
    show ?thesis
    proof (cases "draw_rectangle P canvas box (255, 255, 255)")
      case (Inl e)
      then have "draw_overlay P canvas t sz = canvas" by (simp only: eq sum.case)
      then show ?thesis by simp
    next
      case r: (Inr c1)
      show ?thesis
      proof (cases "draw_text P c1 pos t fnt")
        case (Inl e)
        then have "draw_overlay P canvas t sz = c1" by (simp only: eq r sum.case)
        then show ?thesis using r by blast
      next
        case tx: (Inr c2)
        then have "draw_overlay P canvas t sz = c2" by (simp only: eq r sum.case)
        then show ?thesis using r tx by blast
      qed
    qed
  qed
qed

lemma grid_produced_whatever_the_overlay:
  assumes "grid_canvas P imgs sz = Inr canvas" and "2 \<le> length imgs"
  shows "\<exists>out. create_grid_image (Some P) imgs overlay_text sz = Inr out"
  using assms by (simp add: create_grid_image_def)

text \<open>
  C4. The claim has the uploaded file retained as it came when the normalisation fails.
  The save over the uploaded file is inside the same \<open>try\<close>: when it is the save that
  raises, the exception is dropped like any other and the file is what the failed save
  left. Here the upload is a landscape image of 4 by 2 under the name \<open>w.jpg\<close>, the
  library decodes, crops and resizes it, and its save raises with the file emptied: the
  upload is answered with success and the stored file is empty, not the three bytes that
  were uploaded.
\<close>

theorem failed_save_empties_upload:
  "u_file wide_upload_request = Some (example_file ''w.jpg'' [4, 2, 10])
   \<and> image_open truncating_pil [4, 2, 10] = Inr (grey_image 4 2 10)
   \<and> (\<exists>out. normalize_card truncating_pil (grey_image 4 2 10) None = Inr out
         \<and> image_save truncating_pil out (T ''ab12.jpg'') None (Some [4, 2, 10])
             = (Some (OtherError ''OSError''), Some []))
   \<and> status_of (fst (api_upload (example_env\<lparr>pillow := Some truncating_pil\<rparr>) 10 11 12
         (T ''ab12'') (T ''s3cret'') wide_upload_request empty_store)) = 200
   \<and> files (snd (api_upload (example_env\<lparr>pillow := Some truncating_pil\<rparr>) 10 11 12
         (T ''ab12'') (T ''s3cret'') wide_upload_request empty_store)) (T ''ab12.jpg'') = Some []"
proof -
  define E where "E = example_env\<lparr>pillow := Some truncating_pil\<rparr>"
  define f where "f = example_file ''w.jpg'' [4, 2, 10]"
  have 1: "u_file wide_upload_request = Some f"
    by (simp add: wide_upload_request_def f_def)
  have 2: "image_open truncating_pil [4, 2, 10] = Inr (grey_image 4 2 10)"
    by (simp add: truncating_pil_def example_pil_def example_open_def grey_image_def)
  have g: "0 < height (grey_image 4 2 10)" "height (grey_image 4 2 10) < width (grey_image 4 2 10)"
    "width (grey_image 4 2 10) < 2 ^ 31"
    by (simp_all add: grey_image_def)
  obtain out where out: "normalize_card truncating_pil (grey_image 4 2 10) None = Inr out"
    using normalize_card_landscape[OF g, of truncating_pil None]
    by (simp add: resize_def truncating_pil_def example_pil_def)
  have sv: "image_save truncating_pil out (T ''ab12.jpg'') None (Some [4, 2, 10])
             = (Some (OtherError ''OSError''), Some [])"
    by (simp add: truncating_pil_def)
  have n: "secure_filename E (or_else (fs_filename f) []) = ''w.jpg''"
    unfolding E_def f_def by code_simp
  have a: "is_allowed_image_filename ''w.jpg''" by code_simp
  have c: "is_image_content_type f" unfolding f_def by code_simp
  have x: "T ''ab12'' @ T (lower (splitext_ext ''w.jpg'')) = T ''ab12.jpg''" by code_simp
  have d: "fs_data f = [4, 2, 10]" "truthy (fs_filename f)" "fs_mimetype f = T ''image/png''"
    unfolding f_def by code_simp+
  have p: "pillow E = Some truncating_pil" by (simp add: E_def)
  have nf: "normalize_saved_file truncating_pil (T ''ab12.jpg'') None
              (Map.empty(T ''ab12.jpg'' \<mapsto> [4, 2, 10]))
            = (Map.empty(T ''ab12.jpg'' \<mapsto> [4, 2, 10]))(T ''ab12.jpg'' := Some [])"
    using normalization_saves[of "Map.empty(T ''ab12.jpg'' \<mapsto> [4, 2, 10])" "T ''ab12.jpg''"
        "[4, 2, 10]" truncating_pil None out]
    by (simp add: 2 out sv)
  have s: "save_uploaded_image_for_image_host E f (T ''ab12'') None Map.empty
             = (Inr (T ''ab12.jpg'', url_for_static E (T ''ab12.jpg''), url_for_image_view E (T ''ab12'')),
                [T ''ab12.jpg'' \<mapsto> []])"
    by (simp add: save_uploaded_image_for_image_host_def Let_def n a c x d p nf)
  have e: "cleanup_expired_images 10 empty_store = empty_store"
    by (simp add: cleanup_expired_images_def empty_store_def)
  have es: "images empty_store = []" "files empty_store = Map.empty"
    by (simp_all add: empty_store_def)
  have r: "u_expiry_minutes wide_upload_request = None" "u_offset_y wide_upload_request = None"
    "u_title wide_upload_request = None" "u_description wide_upload_request = None"
    by (simp_all add: wide_upload_request_def)
  have t: "\<not> truthy (None :: ustr option)" by simp
  have u: "api_upload E 10 11 12 (T ''ab12'') (T ''s3cret'') wide_upload_request empty_store
      = (Json_created \<lparr> r_id = T ''ab12'', r_direct_url = url_for_static E (T ''ab12.jpg''),
           r_view_url = url_for_image_view E (T ''ab12''),
           r_delete_url = url_for_delete E (T ''ab12''),
           r_delete_token = T ''s3cret'', r_expires_at = Some None \<rparr>,
         \<lparr> images = [\<lparr> img_id = T ''ab12'', filename = T ''ab12.jpg'',
              content_type = T ''image/png'', img_title = strip E [],
              img_description = strip E [], created_at = 12, expires_at = None,
              delete_token = T ''s3cret'' \<rparr>],
           files = [T ''ab12.jpg'' \<mapsto> []] \<rparr>)"
    by (simp add: api_upload_def Let_def e es 1 r t d s insert_image_def
        select_image_def or_else_def)
  show ?thesis
    using 2 out sv u by (auto simp: E_def[symmetric] 1 f_def[symmetric])
qed

end
